theory Spec2Isabelle
  imports Main "HOL-Library.Word"
begin

unbundle bit_operations_syntax

section \<open>Machine types of payoutd.c\<close>

text \<open>
  \<^verbatim>\<open>unsigned char\<close> is an 8-bit word, \<^verbatim>\<open>int\<close> a 32-bit word read with \<open>sint\<close>,
  \<^verbatim>\<open>unsigned long\<close> and \<^verbatim>\<open>unsigned long long\<close> 64-bit words (LP64), and jansson's
  \<^verbatim>\<open>json_int_t\<close> is \<^verbatim>\<open>long long\<close>. A \<^verbatim>\<open>char *\<close> that may be NULL is a
  \<open>string option\<close>.
\<close>

type_synonym u8 = "8 word"
type_synonym c_int = "32 word"
type_synonym ulong = "64 word"
type_synonym json_int_t = "64 word"

section \<open>JSON values (jansson)\<close>

datatype json =
    JObject "(string \<times> json) list"
  | JArray "json list"
  | JString string
  | JInteger json_int_t
  | JReal
  | JTrue
  | JFalse
  | JNull

text \<open>\<^verbatim>\<open>json_object_get\<close>: NULL when the value is no object or has no such key.\<close>

fun json_object_get :: "json \<Rightarrow> string \<Rightarrow> json option" where
  "json_object_get (JObject kvs) k = map_of kvs k"
| "json_object_get _ k = None"

fun json_is_string :: "json option \<Rightarrow> bool" where
  "json_is_string (Some (JString s)) = True"
| "json_is_string _ = False"

fun json_is_integer :: "json option \<Rightarrow> bool" where
  "json_is_integer (Some (JInteger n)) = True"
| "json_is_integer _ = False"

fun json_string_value :: "json option \<Rightarrow> string" where
  "json_string_value (Some (JString s)) = s"
| "json_string_value _ = []"

fun json_integer_value :: "json option \<Rightarrow> json_int_t" where
  "json_integer_value (Some (JInteger n)) = n"
| "json_integer_value _ = 0"

section \<open>The vendor library's interface\<close>

text \<open>
  The header files of libitlssp are not part of the sources, so the enumerators they
  declare are kept symbolic: each enum is a datatype with one constructor per enumerator
  named in payoutd.c and one more for every other value.
\<close>

datatype SSP_RESPONSE_ENUM =
    SSP_RESPONSE_OK
  | SSP_RESPONSE_UNKNOWN_COMMAND
  | SSP_RESPONSE_INCORRECT_PARAMETERS
  | SSP_RESPONSE_INVALID_PARAMETER
  | SSP_RESPONSE_COMMAND_NOT_PROCESSED
  | SSP_RESPONSE_SOFTWARE_ERROR
  | SSP_RESPONSE_CHECKSUM_ERROR
  | SSP_RESPONSE_FAILURE
  | SSP_RESPONSE_HEADER_FAILURE
  | SSP_RESPONSE_KEY_NOT_SET
  | SSP_RESPONSE_TIMEOUT
  | SSP_RESPONSE_unlisted u8

datatype SSP_POLL_CODE =
    SSP_POLL_RESET
  | SSP_POLL_READ
  | SSP_POLL_TIMEOUT
  | SSP_POLL_DISPENSING
  | SSP_POLL_DISPENSED
  | SSP_POLL_FLOATING
  | SSP_POLL_FLOATED
  | SSP_POLL_CASHBOX_PAID
  | SSP_POLL_JAMMED
  | SSP_POLL_FRAUD_ATTEMPT
  | SSP_POLL_COIN_CREDIT
  | SSP_POLL_EMPTY
  | SSP_POLL_EMPTYING
  | SSP_POLL_SMART_EMPTYING
  | SSP_POLL_SMART_EMPTIED
  | SSP_POLL_CREDIT
  | SSP_POLL_INCOMPLETE_PAYOUT
  | SSP_POLL_INCOMPLETE_FLOAT
  | SSP_POLL_DISABLED
  | SSP_POLL_CALIBRATION_FAIL
  | SSP_POLL_REJECTING
  | SSP_POLL_REJECTED
  | SSP_POLL_STACKING
  | SSP_POLL_STORED
  | SSP_POLL_STACKED
  | SSP_POLL_SAFE_JAM
  | SSP_POLL_UNSAFE_JAM
  | SSP_POLL_STACKER_FULL
  | SSP_POLL_CASH_BOX_REMOVED
  | SSP_POLL_CASH_BOX_REPLACED
  | SSP_POLL_CLEARED_FROM_FRONT
  | SSP_POLL_CLEARED_INTO_CASHBOX
  | SSP_POLL_unlisted u8

datatype CALIBRATION_FAILURE =
    NO_FAILUE
  | SENSOR_FLAP
  | SENSOR_EXIT
  | SENSOR_COIL1
  | SENSOR_COIL2
  | NOT_INITIALISED
  | CHECKSUM_ERROR
  | COMMAND_RECAL
  | CALIBRATION_unlisted

datatype channel_state = DISABLED | ENABLED

datatype payout_option = SSP6_OPTION_BYTE_DO | SSP6_OPTION_BYTE_TEST

text \<open>
  The command identifiers: those of payoutd.c's own \<^verbatim>\<open>#define\<close>s and the three it takes
  from the header (\<^verbatim>\<open>SSP_CMD_EMPTY\<close>, \<^verbatim>\<open>SSP_CMD_FLOAT\<close>, \<^verbatim>\<open>SSP_CMD_CHANNEL_SECURITY\<close>).
\<close>

datatype SSP_CMD =
    SSP_CMD_GET_FIRMWARE_VERSION
  | SSP_CMD_GET_DATASET_VERSION
  | SSP_CMD_GET_ALL_LEVELS
  | SSP_CMD_SET_DENOMINATION_LEVEL
  | SSP_CMD_SET_CASHBOX_PAYOUT_LIMIT
  | SSP_CMD_LAST_REJECT_NOTE
  | SSP_CMD_CONFIGURE_BEZEL
  | SSP_CMD_SMART_EMPTY
  | SSP_CMD_CASHBOX_PAYOUT_OPERATION_DATA
  | SSP_CMD_SET_REFILL_MODE
  | SSP_CMD_DISPLAY_OFF
  | SSP_CMD_DISPLAY_ON
  | SSP_CMD_EMPTY
  | SSP_CMD_FLOAT
  | SSP_CMD_CHANNEL_SECURITY

text \<open>The numbers payoutd.c gives to its own command identifiers.\<close>

fun SSP_CMD_value :: "SSP_CMD \<Rightarrow> u8 option" where
  "SSP_CMD_value SSP_CMD_GET_FIRMWARE_VERSION = Some 0x20"
| "SSP_CMD_value SSP_CMD_GET_DATASET_VERSION = Some 0x21"
| "SSP_CMD_value SSP_CMD_GET_ALL_LEVELS = Some 0x22"
| "SSP_CMD_value SSP_CMD_SET_DENOMINATION_LEVEL = Some 0x34"
| "SSP_CMD_value SSP_CMD_SET_CASHBOX_PAYOUT_LIMIT = Some 0x4E"
| "SSP_CMD_value SSP_CMD_LAST_REJECT_NOTE = Some 0x17"
| "SSP_CMD_value SSP_CMD_CONFIGURE_BEZEL = Some 0x54"
| "SSP_CMD_value SSP_CMD_SMART_EMPTY = Some 0x52"
| "SSP_CMD_value SSP_CMD_CASHBOX_PAYOUT_OPERATION_DATA = Some 0x53"
| "SSP_CMD_value SSP_CMD_SET_REFILL_MODE = Some 0x30"
| "SSP_CMD_value SSP_CMD_DISPLAY_OFF = Some 0x4"
| "SSP_CMD_value SSP_CMD_DISPLAY_ON = Some 0x3"
| "SSP_CMD_value _ = None"

text \<open>
  One byte of \<^verbatim>\<open>CommandData\<close> after the command identifier: a number, or the payout
  option of the header.
\<close>

datatype command_byte = Byte u8 | Option_byte payout_option

text \<open>
  One call into the library on a device's \<^verbatim>\<open>SSP_COMMAND\<close>: \<^verbatim>\<open>send_ssp_command\<close> with
  \<^verbatim>\<open>CommandData[0]\<close> and the \<^verbatim>\<open>CommandDataLength - 1\<close> bytes after it, or one of the
  \<^verbatim>\<open>ssp6_*\<close> helpers with its arguments.
\<close>

datatype ssp_call =
    send_ssp_command SSP_CMD "command_byte list"
  | ssp6_sync
  | ssp6_setup_encryption "64 word"
  | ssp6_host_protocol u8
  | ssp6_setup_request
  | ssp6_enable
  | ssp6_disable
  | ssp6_poll
  | ssp6_set_inhibits u8 u8
  | ssp6_payout c_int string payout_option
  | ssp6_run_calibration
  | ssp6_set_coinmech_inhibits ulong string channel_state
  | ssp6_set_route c_int string u8
  | ssp6_enable_payout u8

record SSP_POLL_EVENT6 =
  event :: SSP_POLL_CODE
  data1 :: ulong
  data2 :: ulong
  cc :: string

record SSP6_CHANNEL_DATA =
  "value" :: ulong
  channel_cc :: string

record SSP6_SETUP_REQUEST_DATA =
  UnitType :: u8
  NumberOfChannels :: nat
  ChannelData :: "SSP6_CHANNEL_DATA list"

text \<open>
  What one call leaves behind: whether \<^verbatim>\<open>send_ssp_command\<close> returned non-zero, the
  response code (the value an \<^verbatim>\<open>ssp6_*\<close> helper returns, which is \<^verbatim>\<open>ResponseData[0]\<close>
  read as the enum), the receive buffer \<^verbatim>\<open>ResponseData\<close> from index 0, and the structures
  that \<^verbatim>\<open>ssp6_poll\<close> and \<^verbatim>\<open>ssp6_setup_request\<close> fill.
\<close>

record hw_reply =
  answered :: bool
  code :: SSP_RESPONSE_ENUM
  reply_data :: "u8 list"
  poll_events :: "SSP_POLL_EVENT6 list"
  setup_data :: SSP6_SETUP_REQUEST_DATA

datatype device_ref = Hopper | Validator

type_synonym exchange = "device_ref \<times> ssp_call \<times> hw_reply"

section \<open>Published messages\<close>

text \<open>
  A message is the JSON object of its \<^verbatim>\<open>printf\<close> format: the keys of the format in
  their order, each with the constant the format gives it or the argument substituted
  for its conversion.
\<close>

record level_entry =
  entry_value :: int
  entry_level :: int
  entry_cc :: "string option"

datatype printf_arg =
    Str string
  | Ld int
  | Hex02X SSP_POLL_CODE
  | Levels "level_entry list"

type_synonym message = "(string \<times> printf_arg) list"

section \<open>The state of the daemon\<close>

datatype encryption_status = NO_ENCRYPTION | ENCRYPTION_SET

record SSP_COMMAND =
  SSPAddress :: int
  Timeout :: int
  EncryptionStatus :: encryption_status
  RetryLevel :: int
  BaudRate :: int
  ResponseData :: "u8 list"

datatype event_handler = Fn_hopperEventHandler | Fn_validatorEventHandler

record m_device =
  device_id :: int
  name :: string
  sspDeviceAvailable :: bool
  key :: "64 word"
  channelInhibits :: u8
  sspC :: SSP_COMMAND
  sspSetupReq :: SSP6_SETUP_REQUEST_DATA
  eventHandlerFn :: event_handler

record m_metacash =
  quit :: int
  sspAvailable :: bool
  serialDevice :: string
  acceptCoins :: bool
  logSyslogStderr :: bool
  redisPort :: int
  redisHost :: string
  hopper :: m_device
  validator :: m_device

record m_command =
  jsonMessage :: json
  command :: "string option"
  correlId :: "string option"
  msgId :: "string option"
  responseTopic :: string
  device :: device_ref

text \<open>
  The process: running, ended by \<^verbatim>\<open>exit\<close> or by the return of \<^verbatim>\<open>main\<close> with a code, or
  past an array read outside its bounds, from where C defines nothing.
\<close>

datatype run_status = Running | Exited int | Undefined_behaviour

text \<open>
  Besides the \<^verbatim>\<open>m_metacash\<close> structure the state holds the global \<^verbatim>\<open>receivedSignal\<close>,
  every call made into the vendor library with what it left behind, in order, every
  \<^verbatim>\<open>PUBLISH topic message\<close> handed to the publishing redis context, in order, and
  which of the two timers have been added to the event base.
\<close>

record world =
  metacash :: m_metacash
  receivedSignal :: int
  wire :: "exchange list"
  published :: "(string \<times> message) list"
  evCheckQuit :: bool
  evPoll :: bool
  status :: run_status

text \<open>
  What the daemon does not decide itself: the devices behind the vendor library (a reply
  for each call, given all earlier exchanges), jansson's parser, \<^verbatim>\<open>atoi\<close>, and the
  header's calibration codes against which \<^verbatim>\<open>data1\<close> is compared.
\<close>

record json_error_t =
  error_text :: string
  error_line :: int

record environment =
  hardware :: "exchange list \<Rightarrow> device_ref \<Rightarrow> ssp_call \<Rightarrow> hw_reply"
  json_loads :: "string \<Rightarrow> json_error_t + json"
  atoi :: "string \<Rightarrow> int"
  calibration_failure :: "ulong \<Rightarrow> CALIBRATION_FAILURE"

fun the_device :: "device_ref \<Rightarrow> m_metacash \<Rightarrow> m_device" where
  "the_device Hopper m = hopper m"
| "the_device Validator m = validator m"

fun update_device :: "device_ref \<Rightarrow> (m_device \<Rightarrow> m_device) \<Rightarrow> m_metacash \<Rightarrow> m_metacash" where
  "update_device Hopper f m = m\<lparr>hopper := f (hopper m)\<rparr>"
| "update_device Validator f m = m\<lparr>validator := f (validator m)\<rparr>"

text \<open>
  A call into the library on the \<^verbatim>\<open>sspC\<close> of a device: it is logged with its reply,
  and the receive buffer of that \<^verbatim>\<open>sspC\<close> holds what the call left there.
\<close>

definition ssp_exchange :: "environment \<Rightarrow> device_ref \<Rightarrow> ssp_call \<Rightarrow> world \<Rightarrow> hw_reply \<times> world" where
  "ssp_exchange E d c w =
     (let r = hardware E (wire w) d c in
      (r, w\<lparr>wire := wire w @ [(d, c, r)],
            metacash := update_device d
              (\<lambda>dev. dev\<lparr>sspC := (sspC dev)\<lparr>ResponseData := reply_data r\<rparr>\<rparr>) (metacash w)\<rparr>))"

text \<open>An \<^verbatim>\<open>ssp6_*\<close> helper of the library returns the response code.\<close>

definition ssp6 :: "environment \<Rightarrow> device_ref \<Rightarrow> ssp_call \<Rightarrow> world \<Rightarrow> SSP_RESPONSE_ENUM \<times> world" where
  "ssp6 E d c w = (let (r, w') = ssp_exchange E d c w in (code r, w'))"

text \<open>
  The pattern shared by the \<^verbatim>\<open>mc_ssp_*\<close> functions: fill \<^verbatim>\<open>CommandData\<close>, call
  \<^verbatim>\<open>send_ssp_command\<close>, return \<^verbatim>\<open>SSP_RESPONSE_TIMEOUT\<close> when it returned 0 and
  \<^verbatim>\<open>ResponseData[0]\<close> as the response otherwise.
\<close>

definition mc_send :: "environment \<Rightarrow> device_ref \<Rightarrow> SSP_CMD \<Rightarrow> command_byte list \<Rightarrow> world \<Rightarrow> SSP_RESPONSE_ENUM \<times> world" where
  "mc_send E d c bytes w =
     (let (r, w') = ssp_exchange E d (send_ssp_command c bytes) w in
      if \<not> answered r then (SSP_RESPONSE_TIMEOUT, w') else (code r, w'))"

text \<open>
  A read of the receive buffer. The buffer is the list the exchange left; a read past
  its end yields 0.
\<close>

definition peek :: "u8 list \<Rightarrow> nat \<Rightarrow> u8" where
  "peek buf i = (if i < length buf then buf ! i else 0)"

text \<open>The bytes up to the first NUL, as characters.\<close>

definition c_string :: "u8 list \<Rightarrow> string" where
  "c_string bs = map (\<lambda>b. char_of (unat b)) (takeWhile (\<lambda>b. b \<noteq> 0) bs)"

definition CURRENCY :: string where
  "CURRENCY = ''EUR''"

definition DEFAULT_KEY :: "64 word" where
  "DEFAULT_KEY = 0x123456701234567"

definition SSP_OPTION_ROUTE_CASHBOX :: u8 where "SSP_OPTION_ROUTE_CASHBOX = 0x01"
definition SSP_OPTION_ROUTE_STORAGE :: u8 where "SSP_OPTION_ROUTE_STORAGE = 0x00"
definition SSP_OPTION_NON_VOLATILE :: u8 where "SSP_OPTION_NON_VOLATILE = 0x01"

text \<open>\<^verbatim>\<open>cc[0]\<close>, \<^verbatim>\<open>cc[1]\<close>, \<^verbatim>\<open>cc[2]\<close> of a currency code.\<close>

definition cc_bytes :: "string \<Rightarrow> command_byte list" where
  "cc_bytes s = map (\<lambda>c. Byte (of_char c)) (take 3 s)"

text \<open>Byte \<open>i\<close> of an \<^verbatim>\<open>int\<close>: \<^verbatim>\<open>x >> (i * 8)\<close> stored into an \<^verbatim>\<open>unsigned char\<close>.\<close>

definition int_byte :: "c_int \<Rightarrow> nat \<Rightarrow> command_byte" where
  "int_byte x i = Byte (ucast (signed_drop_bit (i * 8) x))"

definition uint_byte :: "c_int \<Rightarrow> nat \<Rightarrow> command_byte" where
  "uint_byte x i = Byte (ucast (drop_bit (i * 8) x))"

section \<open>The SSP commands implemented in payoutd.c\<close>

definition mc_ssp_last_reject_note :: "environment \<Rightarrow> device_ref \<Rightarrow> world \<Rightarrow> (SSP_RESPONSE_ENUM \<times> u8 option) \<times> world" where
  "mc_ssp_last_reject_note E d w =
     (let (r, w') = ssp_exchange E d (send_ssp_command SSP_CMD_LAST_REJECT_NOTE []) w in
      if \<not> answered r then ((SSP_RESPONSE_TIMEOUT, None), w')
      else ((code r, Some (peek (reply_data r) 1)), w'))"

definition mc_ssp_display_on :: "environment \<Rightarrow> device_ref \<Rightarrow> world \<Rightarrow> SSP_RESPONSE_ENUM \<times> world" where
  "mc_ssp_display_on E d w = mc_send E d SSP_CMD_DISPLAY_ON [] w"

definition mc_ssp_display_off :: "environment \<Rightarrow> device_ref \<Rightarrow> world \<Rightarrow> SSP_RESPONSE_ENUM \<times> world" where
  "mc_ssp_display_off E d w = mc_send E d SSP_CMD_DISPLAY_OFF [] w"

definition mc_ssp_set_refill_mode :: "environment \<Rightarrow> device_ref \<Rightarrow> world \<Rightarrow> SSP_RESPONSE_ENUM \<times> world" where
  "mc_ssp_set_refill_mode E d w =
     mc_send E d SSP_CMD_SET_REFILL_MODE
       [Byte 0x05, Byte 0x81, Byte 0x10, Byte 0x11, Byte 0x01, Byte 0x01, Byte 0x52, Byte 0xF5] w"

definition mc_ssp_empty :: "environment \<Rightarrow> device_ref \<Rightarrow> world \<Rightarrow> SSP_RESPONSE_ENUM \<times> world" where
  "mc_ssp_empty E d w = mc_send E d SSP_CMD_EMPTY [] w"

definition mc_ssp_smart_empty :: "environment \<Rightarrow> device_ref \<Rightarrow> world \<Rightarrow> SSP_RESPONSE_ENUM \<times> world" where
  "mc_ssp_smart_empty E d w = mc_send E d SSP_CMD_SMART_EMPTY [] w"

definition mc_ssp_configure_bezel :: "environment \<Rightarrow> device_ref \<Rightarrow> u8 \<Rightarrow> u8 \<Rightarrow> u8 \<Rightarrow> u8 \<Rightarrow> u8 \<Rightarrow> world \<Rightarrow> SSP_RESPONSE_ENUM \<times> world" where
  "mc_ssp_configure_bezel E d r g b volatileOption bezelTypeOption w =
     mc_send E d SSP_CMD_CONFIGURE_BEZEL
       [Byte r, Byte g, Byte b, Byte volatileOption, Byte bezelTypeOption] w"

definition mc_ssp_set_denomination_level :: "environment \<Rightarrow> device_ref \<Rightarrow> c_int \<Rightarrow> c_int \<Rightarrow> string \<Rightarrow> world \<Rightarrow> SSP_RESPONSE_ENUM \<times> world" where
  "mc_ssp_set_denomination_level E d amount level ccode w =
     mc_send E d SSP_CMD_SET_DENOMINATION_LEVEL
       (map (int_byte level) [0, 1] @ map (int_byte amount) [0, 1, 2, 3] @ cc_bytes ccode) w"

definition mc_ssp_set_cashbox_payout_limit :: "environment \<Rightarrow> device_ref \<Rightarrow> c_int \<Rightarrow> c_int \<Rightarrow> string \<Rightarrow> world \<Rightarrow> SSP_RESPONSE_ENUM \<times> world" where
  "mc_ssp_set_cashbox_payout_limit E d limit denomination ccode w =
     mc_send E d SSP_CMD_SET_CASHBOX_PAYOUT_LIMIT
       ([Byte 1] @ map (uint_byte limit) [0, 1] @ map (int_byte denomination) [0, 1, 2, 3]
          @ cc_bytes ccode) w"

definition mc_ssp_float :: "environment \<Rightarrow> device_ref \<Rightarrow> c_int \<Rightarrow> string \<Rightarrow> payout_option \<Rightarrow> world \<Rightarrow> SSP_RESPONSE_ENUM \<times> world" where
  "mc_ssp_float E d v ccode opt w =
     mc_send E d SSP_CMD_FLOAT
       (map (int_byte 100) [0, 1] @ map (int_byte v) [0, 1, 2, 3] @ cc_bytes ccode
          @ [Option_byte opt]) w"

text \<open>
  One counter of a levels response, read after index \<open>i\<close>: two bytes of level, four of
  value (both little endian, summed into an \<^verbatim>\<open>int\<close> and printed with \<^verbatim>\<open>%d\<close>), three of
  currency code.
\<close>

definition le_int :: "u8 list \<Rightarrow> c_int" where
  "le_int bs = foldr (\<lambda>b acc. ucast b + push_bit 8 acc) bs 0"

definition counter_at :: "u8 list \<Rightarrow> nat \<Rightarrow> level_entry" where
  "counter_at buf i =
     \<lparr>entry_value = sint (le_int (map (peek buf) [i + 3, i + 4, i + 5, i + 6])),
      entry_level = sint (le_int (map (peek buf) [i + 1, i + 2])),
      entry_cc = Some (c_string (map (peek buf) [i + 7, i + 8, i + 9]))\<rparr>"

fun counters :: "u8 list \<Rightarrow> nat \<Rightarrow> nat \<Rightarrow> level_entry list" where
  "counters buf i 0 = []"
| "counters buf i (Suc n) = counter_at buf i # counters buf (i + 9) n"

definition mc_ssp_cashbox_payout_operation_data :: "environment \<Rightarrow> device_ref \<Rightarrow> world \<Rightarrow> (SSP_RESPONSE_ENUM \<times> level_entry list option) \<times> world" where
  "mc_ssp_cashbox_payout_operation_data E d w =
     (let (r, w') = ssp_exchange E d (send_ssp_command SSP_CMD_CASHBOX_PAYOUT_OPERATION_DATA []) w in
      if \<not> answered r then ((SSP_RESPONSE_TIMEOUT, None), w')
      else if code r \<noteq> SSP_RESPONSE_OK then ((code r, None), w')
      else
        let buf = reply_data r;
            numCounters = unat (peek buf 1);
            i = 1 + 9 * numCounters;
            qtyUnknown = le_int (map (peek buf) [i + 1, i + 2, i + 3])
        in ((code r, Some (counters buf 1 numCounters
                @ [\<lparr>entry_value = 0, entry_level = sint qtyUnknown, entry_cc = None\<rparr>])), w'))"

definition mc_ssp_get_all_levels :: "environment \<Rightarrow> device_ref \<Rightarrow> world \<Rightarrow> (SSP_RESPONSE_ENUM \<times> level_entry list option) \<times> world" where
  "mc_ssp_get_all_levels E d w =
     (let (r, w') = ssp_exchange E d (send_ssp_command SSP_CMD_GET_ALL_LEVELS []) w in
      if \<not> answered r then ((SSP_RESPONSE_TIMEOUT, None), w')
      else
        let buf = reply_data r;
            numCounters = unat (peek buf 1)
        in ((code r, Some (counters buf 1 numCounters)), w'))"

definition mc_ssp_get_firmware_version :: "environment \<Rightarrow> device_ref \<Rightarrow> world \<Rightarrow> (SSP_RESPONSE_ENUM \<times> string) \<times> world" where
  "mc_ssp_get_firmware_version E d w =
     (let (r, w') = ssp_exchange E d (send_ssp_command SSP_CMD_GET_FIRMWARE_VERSION []) w in
      if \<not> answered r then ((SSP_RESPONSE_TIMEOUT, []), w')
      else if code r = SSP_RESPONSE_OK
        then ((code r, c_string (map (\<lambda>i. peek (reply_data r) (1 + i)) [0..<16])), w')
        else ((code r, []), w'))"

definition mc_ssp_get_dataset_version :: "environment \<Rightarrow> device_ref \<Rightarrow> world \<Rightarrow> (SSP_RESPONSE_ENUM \<times> string) \<times> world" where
  "mc_ssp_get_dataset_version E d w =
     (let (r, w') = ssp_exchange E d (send_ssp_command SSP_CMD_GET_DATASET_VERSION []) w in
      if \<not> answered r then ((SSP_RESPONSE_TIMEOUT, []), w')
      else if code r = SSP_RESPONSE_OK
        then ((code r, c_string (map (\<lambda>i. peek (reply_data r) (1 + i)) [0..<8])), w')
        else ((code r, []), w'))"

definition mc_ssp_channel_security_data :: "environment \<Rightarrow> device_ref \<Rightarrow> world \<Rightarrow> SSP_RESPONSE_ENUM \<times> world" where
  "mc_ssp_channel_security_data E d w = mc_send E d SSP_CMD_CHANNEL_SECURITY [] w"

section \<open>Replies\<close>

definition replyWith :: "string \<Rightarrow> message \<Rightarrow> world \<Rightarrow> world" where
  "replyWith topic m w = w\<lparr>published := published w @ [(topic, m)]\<rparr>"

definition publishPayoutEvent :: "message \<Rightarrow> world \<Rightarrow> world" where
  "publishPayoutEvent m w = w\<lparr>published := published w @ [(''payout-event'', m)]\<rparr>"

definition publishHopperEvent :: "message \<Rightarrow> world \<Rightarrow> world" where
  "publishHopperEvent m w = w\<lparr>published := published w @ [(''hopper-event'', m)]\<rparr>"

definition publishValidatorEvent :: "message \<Rightarrow> world \<Rightarrow> world" where
  "publishValidatorEvent m w = w\<lparr>published := published w @ [(''validator-event'', m)]\<rparr>"

text \<open>What \<^verbatim>\<open>%s\<close> prints for a \<^verbatim>\<open>char *\<close> (glibc prints a NULL pointer as \<^verbatim>\<open>(null)\<close>).\<close>

fun percent_s :: "string option \<Rightarrow> string" where
  "percent_s (Some s) = s"
| "percent_s None = ''(null)''"

definition replyWithPropertyError :: "m_command \<Rightarrow> string \<Rightarrow> world \<Rightarrow> world" where
  "replyWithPropertyError cmd nm w =
     (let msgId' = (case msgId cmd of Some m \<Rightarrow> m | None \<Rightarrow> ''unknown'');
          correlId' = (case correlId cmd of Some c \<Rightarrow> c | None \<Rightarrow> ''unknown'')
      in replyWith (responseTopic cmd)
           [(''msgId'', Str msgId'),
            (''correlId'', Str correlId'),
            (''error'', Str (''Property '' @ [CHR 0x27] @ nm @ [CHR 0x27] @ '' missing or of wrong type''))] w)"

fun sspErrorMsg :: "SSP_RESPONSE_ENUM \<Rightarrow> string" where
  "sspErrorMsg SSP_RESPONSE_UNKNOWN_COMMAND = ''unknown command''"
| "sspErrorMsg SSP_RESPONSE_INCORRECT_PARAMETERS = ''incorrect parameters''"
| "sspErrorMsg SSP_RESPONSE_INVALID_PARAMETER = ''invalid parameter''"
| "sspErrorMsg SSP_RESPONSE_COMMAND_NOT_PROCESSED = ''command not processed''"
| "sspErrorMsg SSP_RESPONSE_SOFTWARE_ERROR = ''software error''"
| "sspErrorMsg SSP_RESPONSE_CHECKSUM_ERROR = ''checksum error''"
| "sspErrorMsg SSP_RESPONSE_FAILURE = ''failure''"
| "sspErrorMsg SSP_RESPONSE_HEADER_FAILURE = ''header failure''"
| "sspErrorMsg SSP_RESPONSE_KEY_NOT_SET = ''key not set''"
| "sspErrorMsg SSP_RESPONSE_TIMEOUT = ''timeout''"
| "sspErrorMsg _ = ''unknown''"

definition replyWithSspResponse :: "m_command \<Rightarrow> SSP_RESPONSE_ENUM \<Rightarrow> world \<Rightarrow> world" where
  "replyWithSspResponse cmd response w =
     (if response = SSP_RESPONSE_OK
      then replyWith (responseTopic cmd)
             [(''msgId'', Str (percent_s (msgId cmd))),
              (''correlId'', Str (percent_s (correlId cmd))),
              (''result'', Str ''ok'')] w
      else replyWith (responseTopic cmd)
             [(''msgId'', Str (percent_s (msgId cmd))),
              (''correlId'', Str (percent_s (correlId cmd))),
              (''sspError'', Str (sspErrorMsg response))] w)"

section \<open>Command handlers\<close>

definition isCommand :: "m_command \<Rightarrow> string \<Rightarrow> bool" where
  "isCommand cmd c = (command cmd = Some c)"

text \<open>\<^verbatim>\<open>strstr(haystack, needle) != NULL\<close>.\<close>

fun strstr :: "string \<Rightarrow> string \<Rightarrow> bool" where
  "strstr [] needle = (needle = [])"
| "strstr (c # cs) needle = (take (length needle) (c # cs) = needle \<or> strstr cs needle)"

definition handleQuit :: "m_command \<Rightarrow> world \<Rightarrow> world" where
  "handleQuit cmd w = replyWithSspResponse cmd SSP_RESPONSE_OK (w\<lparr>receivedSignal := 1\<rparr>)"

definition handleEmpty :: "environment \<Rightarrow> m_command \<Rightarrow> world \<Rightarrow> world" where
  "handleEmpty E cmd w =
     (let (resp, w1) = mc_ssp_empty E (device cmd) w in replyWithSspResponse cmd resp w1)"

definition handleSmartEmpty :: "environment \<Rightarrow> m_command \<Rightarrow> world \<Rightarrow> world" where
  "handleSmartEmpty E cmd w =
     (let (resp, w1) = mc_ssp_smart_empty E (device cmd) w in replyWithSspResponse cmd resp w1)"

text \<open>The reason byte of \<^verbatim>\<open>COMMAND_NOT_PROCESSED\<close> after a payout or float.\<close>

definition payoutError :: "u8 \<Rightarrow> string" where
  "payoutError b =
     (if b = 0x01 then ''not enough value in smart payout''
      else if b = 0x02 then ''can'' @ [CHR 0x27] @ ''t pay exact amount''
      else if b = 0x03 then ''smart payout busy''
      else if b = 0x04 then ''smart payout disabled''
      else ''unknown'')"

definition handlePayout :: "environment \<Rightarrow> m_command \<Rightarrow> world \<Rightarrow> world" where
  "handlePayout E cmd w =
     (let payoutOption = (if isCommand cmd ''do-payout'' then SSP6_OPTION_BYTE_DO
                          else SSP6_OPTION_BYTE_TEST);
          jAmount = json_object_get (jsonMessage cmd) ''amount''
      in if \<not> json_is_integer jAmount then replyWithPropertyError cmd ''amount'' w
         else
           let amount = (ucast (json_integer_value jAmount) :: c_int);
               (resp, w1) = ssp6 E (device cmd) (ssp6_payout amount CURRENCY payoutOption) w
           in if resp = SSP_RESPONSE_COMMAND_NOT_PROCESSED
              then replyWith (responseTopic cmd)
                     [(''correlId'', Str (percent_s (correlId cmd))),
                      (''error'', Str (payoutError
                         (peek (ResponseData (sspC (the_device (device cmd) (metacash w1)))) 1)))] w1
              else replyWithSspResponse cmd resp w1)"

definition handleFloat :: "environment \<Rightarrow> m_command \<Rightarrow> world \<Rightarrow> world" where
  "handleFloat E cmd w =
     (let payoutOption = (if isCommand cmd ''do-float'' then SSP6_OPTION_BYTE_DO
                          else SSP6_OPTION_BYTE_TEST);
          jAmount = json_object_get (jsonMessage cmd) ''amount''
      in if \<not> json_is_integer jAmount then replyWithPropertyError cmd ''amount'' w
         else
           let amount = (ucast (json_integer_value jAmount) :: c_int);
               (resp, w1) = mc_ssp_float E (device cmd) amount CURRENCY payoutOption w
           in if resp = SSP_RESPONSE_COMMAND_NOT_PROCESSED
              then replyWith (responseTopic cmd)
                     [(''correlId'', Str (percent_s (correlId cmd))),
                      (''error'', Str (payoutError
                         (peek (ResponseData (sspC (the_device (device cmd) (metacash w1)))) 1)))] w1
              else replyWithSspResponse cmd resp w1)"

text \<open>
  The eight \<^verbatim>\<open>if(strstr(channels, "k") != NULL)\<close> statements of
  \<^verbatim>\<open>handleEnableChannels\<close>, each \<^verbatim>\<open>currentChannelInhibits |= 1 << (k - 1)\<close>.
\<close>

definition setRequestedBits :: "string \<Rightarrow> u8 \<Rightarrow> u8" where
  "setRequestedBits channels c0 =
     (let c = c0;
          c = (if strstr channels ''1'' then c OR push_bit 0 1 else c);
          c = (if strstr channels ''2'' then c OR push_bit 1 1 else c);
          c = (if strstr channels ''3'' then c OR push_bit 2 1 else c);
          c = (if strstr channels ''4'' then c OR push_bit 3 1 else c);
          c = (if strstr channels ''5'' then c OR push_bit 4 1 else c);
          c = (if strstr channels ''6'' then c OR push_bit 5 1 else c);
          c = (if strstr channels ''7'' then c OR push_bit 6 1 else c);
          c = (if strstr channels ''8'' then c OR push_bit 7 1 else c)
      in c)"

text \<open>
  The eight statements of \<^verbatim>\<open>handleDisableChannels\<close> and of
  \<^verbatim>\<open>handleInhibitChannels\<close>, each \<^verbatim>\<open>&= ~(1 << (k - 1))\<close> on the mask.
\<close>

definition clearRequestedBits :: "string \<Rightarrow> u8 \<Rightarrow> u8" where
  "clearRequestedBits channels c0 =
     (let c = c0;
          c = (if strstr channels ''1'' then c AND NOT (push_bit 0 1) else c);
          c = (if strstr channels ''2'' then c AND NOT (push_bit 1 1) else c);
          c = (if strstr channels ''3'' then c AND NOT (push_bit 2 1) else c);
          c = (if strstr channels ''4'' then c AND NOT (push_bit 3 1) else c);
          c = (if strstr channels ''5'' then c AND NOT (push_bit 4 1) else c);
          c = (if strstr channels ''6'' then c AND NOT (push_bit 5 1) else c);
          c = (if strstr channels ''7'' then c AND NOT (push_bit 6 1) else c);
          c = (if strstr channels ''8'' then c AND NOT (push_bit 7 1) else c)
      in c)"

definition handleEnableChannels :: "environment \<Rightarrow> m_command \<Rightarrow> world \<Rightarrow> world" where
  "handleEnableChannels E cmd w =
     (let jChannels = json_object_get (jsonMessage cmd) ''channels''
      in if \<not> json_is_string jChannels then replyWithPropertyError cmd ''channels'' w
         else
      let channels = json_string_value jChannels;
          c = channelInhibits (the_device (device cmd) (metacash w));
          highChannels = 0xFF;
          c = setRequestedBits channels c;
          (resp, w1) = ssp6 E (device cmd) (ssp6_set_inhibits c highChannels) w;
          w2 = (if resp = SSP_RESPONSE_OK
                then w1\<lparr>metacash := update_device (device cmd)
                        (\<lambda>dev. dev\<lparr>channelInhibits := c\<rparr>) (metacash w1)\<rparr>
                else w1)
      in replyWithSspResponse cmd resp w2)"

definition handleDisableChannels :: "environment \<Rightarrow> m_command \<Rightarrow> world \<Rightarrow> world" where
  "handleDisableChannels E cmd w =
     (let jChannels = json_object_get (jsonMessage cmd) ''channels''
      in if \<not> json_is_string jChannels then replyWithPropertyError cmd ''channels'' w
         else
      let channels = json_string_value jChannels;
          c = channelInhibits (the_device (device cmd) (metacash w));
          highChannels = 0xFF;
          c = clearRequestedBits channels c;
          (resp, w1) = ssp6 E (device cmd) (ssp6_set_inhibits c highChannels) w;
          w2 = (if resp = SSP_RESPONSE_OK
                then w1\<lparr>metacash := update_device (device cmd)
                        (\<lambda>dev. dev\<lparr>channelInhibits := c\<rparr>) (metacash w1)\<rparr>
                else w1)
      in replyWithSspResponse cmd resp w2)"

definition handleInhibitChannels :: "environment \<Rightarrow> m_command \<Rightarrow> world \<Rightarrow> world" where
  "handleInhibitChannels E cmd w =
     (let jChannels = json_object_get (jsonMessage cmd) ''channels''
      in if \<not> json_is_string jChannels then replyWithPropertyError cmd ''channels'' w
         else
      let channels = json_string_value jChannels;
          c = (0xFF :: u8);
          highChannels = 0xFF;
          c = clearRequestedBits channels c;
          (resp, w1) = ssp6 E (device cmd) (ssp6_set_inhibits c highChannels) w
      in replyWithSspResponse cmd resp w1)"

definition handleEnable :: "environment \<Rightarrow> m_command \<Rightarrow> world \<Rightarrow> world" where
  "handleEnable E cmd w =
     (let (resp, w1) = ssp6 E (device cmd) ssp6_enable w in replyWithSspResponse cmd resp w1)"

definition handleDisable :: "environment \<Rightarrow> m_command \<Rightarrow> world \<Rightarrow> world" where
  "handleDisable E cmd w =
     (let (resp, w1) = ssp6 E (device cmd) ssp6_disable w in replyWithSspResponse cmd resp w1)"

definition handleSetDenominationLevels :: "environment \<Rightarrow> m_command \<Rightarrow> world \<Rightarrow> world" where
  "handleSetDenominationLevels E cmd w =
     (let jLevel = json_object_get (jsonMessage cmd) ''level''
      in if \<not> json_is_integer jLevel then replyWithPropertyError cmd ''level'' w
         else
      let jAmount = json_object_get (jsonMessage cmd) ''amount''
      in if \<not> json_is_integer jAmount then replyWithPropertyError cmd ''amount'' w
         else
      let level = (ucast (json_integer_value jLevel) :: c_int);
          amount = (ucast (json_integer_value jAmount) :: c_int);
          w1 = (if 0 <s level
                then snd (mc_ssp_set_denomination_level E (device cmd) amount 0 CURRENCY w)
                else w);
          (resp, w2) = mc_ssp_set_denomination_level E (device cmd) amount level CURRENCY w1
      in replyWithSspResponse cmd resp w2)"

definition handleSetCashboxPayoutLimit :: "environment \<Rightarrow> m_command \<Rightarrow> world \<Rightarrow> world" where
  "handleSetCashboxPayoutLimit E cmd w =
     (let jLevel = json_object_get (jsonMessage cmd) ''level''
      in if \<not> json_is_integer jLevel then replyWithPropertyError cmd ''level'' w
         else
      let jAmount = json_object_get (jsonMessage cmd) ''amount''
      in if \<not> json_is_integer jAmount then replyWithPropertyError cmd ''amount'' w
         else
      let level = (ucast (json_integer_value jLevel) :: c_int);
          amount = (ucast (json_integer_value jAmount) :: c_int);
          (resp, w1) = mc_ssp_set_cashbox_payout_limit E (device cmd) level amount CURRENCY w
      in replyWithSspResponse cmd resp w1)"

definition handleGetAllLevels :: "environment \<Rightarrow> m_command \<Rightarrow> world \<Rightarrow> world" where
  "handleGetAllLevels E cmd w =
     (let ((resp, js), w1) = mc_ssp_get_all_levels E (device cmd) w
      in if resp = SSP_RESPONSE_OK
         then replyWith (responseTopic cmd)
                [(''correlId'', Str (percent_s (correlId cmd))),
                 (''levels'', Levels (case js of Some l \<Rightarrow> l | None \<Rightarrow> []))] w1
         else replyWithSspResponse cmd resp w1)"

definition handleCashboxPayoutOperationData :: "environment \<Rightarrow> m_command \<Rightarrow> world \<Rightarrow> world" where
  "handleCashboxPayoutOperationData E cmd w =
     (let ((resp, js), w1) = mc_ssp_cashbox_payout_operation_data E (device cmd) w
      in if resp = SSP_RESPONSE_OK
         then replyWith (responseTopic cmd)
                [(''correlId'', Str (percent_s (correlId cmd))),
                 (''levels'', Levels (case js of Some l \<Rightarrow> l | None \<Rightarrow> []))] w1
         else replyWithSspResponse cmd resp w1)"

definition handleGetFirmwareVersion :: "environment \<Rightarrow> m_command \<Rightarrow> world \<Rightarrow> world" where
  "handleGetFirmwareVersion E cmd w =
     (let ((resp, firmwareVersion), w1) = mc_ssp_get_firmware_version E (device cmd) w
      in if resp = SSP_RESPONSE_OK
         then replyWith (responseTopic cmd)
                [(''correlId'', Str (percent_s (correlId cmd))),
                 (''version'', Str firmwareVersion)] w1
         else replyWithSspResponse cmd resp w1)"

definition handleGetDatasetVersion :: "environment \<Rightarrow> m_command \<Rightarrow> world \<Rightarrow> world" where
  "handleGetDatasetVersion E cmd w =
     (let ((resp, datasetVersion), w1) = mc_ssp_get_dataset_version E (device cmd) w
      in if resp = SSP_RESPONSE_OK
         then replyWith (responseTopic cmd)
                [(''correlId'', Str (percent_s (correlId cmd))),
                 (''version'', Str datasetVersion)] w1
         else replyWithSspResponse cmd resp w1)"

definition rejectReasons :: "string list" where
  "rejectReasons =
     [''note accepted'', ''note length incorrect'',
      ''internal validation failure: average fail'',
      ''internal validation failure: coastline fail'',
      ''internal validation failure: graph fail'',
      ''internal validation failure: buried fail'',
      ''channel inhibited'', ''second note inserted'', ''reject by host'',
      ''note recognised in more than one channel'', ''rear sensor error'',
      ''note too long'', ''disabled by host'', ''mechanism slow/stalled'',
      ''strimming attempt detected'', ''fraud channel reject'', ''no notes inserted'',
      ''peak detect fail'', ''twisted note detected'', ''escrow time-out'',
      ''bar code scan fail'', ''rear sensor 2 fail'', ''slot fail 1'', ''slot fail 2'',
      ''lens over-sample'', ''width detect fail'', ''short note detected'',
      ''note payout'', ''unable to stack note'']"

definition rejectReason :: "u8 \<Rightarrow> string" where
  "rejectReason reasonCode =
     (if unat reasonCode < length rejectReasons then rejectReasons ! unat reasonCode
      else ''undefined in API'')"

definition handleLastRejectNote :: "environment \<Rightarrow> m_command \<Rightarrow> world \<Rightarrow> world" where
  "handleLastRejectNote E cmd w =
     (let ((resp, reasonCode), w1) = mc_ssp_last_reject_note E (device cmd) w
      in if resp = SSP_RESPONSE_OK
         then replyWith (responseTopic cmd)
                [(''correlId'', Str (percent_s (correlId cmd))),
                 (''reason'', Str (rejectReason (case reasonCode of Some b \<Rightarrow> b | None \<Rightarrow> 0))),
                 (''code'', Ld (uint (case reasonCode of Some b \<Rightarrow> b | None \<Rightarrow> 0)))] w1
         else replyWithSspResponse cmd resp w1)"

definition handleChannelSecurityData :: "environment \<Rightarrow> m_command \<Rightarrow> world \<Rightarrow> world" where
  "handleChannelSecurityData E cmd w = snd (mc_ssp_channel_security_data E (device cmd) w)"

definition handleTest :: "m_command \<Rightarrow> world \<Rightarrow> world" where
  "handleTest cmd w = replyWithSspResponse cmd SSP_RESPONSE_OK w"

definition handleConfigureBezel :: "environment \<Rightarrow> m_command \<Rightarrow> world \<Rightarrow> world" where
  "handleConfigureBezel E cmd w =
     (let jR = json_object_get (jsonMessage cmd) ''r''
      in if \<not> json_is_integer jR then replyWithPropertyError cmd ''r'' w
         else
      let r = (ucast (json_integer_value jR) :: u8);
          jG = json_object_get (jsonMessage cmd) ''g''
      in if \<not> json_is_integer jG then replyWithPropertyError cmd ''g'' w
         else
      let g = (ucast (json_integer_value jG) :: u8);
          jB = json_object_get (jsonMessage cmd) ''b''
      in if \<not> json_is_integer jB then replyWithPropertyError cmd ''b'' w
         else
      let b = (ucast (json_integer_value jB) :: u8);
          jType = json_object_get (jsonMessage cmd) ''type''
      in if \<not> json_is_integer jType then replyWithPropertyError cmd ''type'' w
         else
      let type = (ucast (json_integer_value jType) :: u8);
          (resp, w1) = mc_ssp_configure_bezel E (device cmd) r g b SSP_OPTION_NON_VOLATILE type w
      in replyWithSspResponse cmd resp w1)"

section \<open>The request callback\<close>

datatype redisReply = REDIS_REPLY_ARRAY "string list" | REDIS_REPLY_other

text \<open>The commands that need the hardware, in the order of the \<^verbatim>\<open>else if\<close> chain.\<close>

definition dispatchHardwareCommand :: "environment \<Rightarrow> m_command \<Rightarrow> world \<Rightarrow> world" where
  "dispatchHardwareCommand E cmd w =
     (if isCommand cmd ''configure-bezel'' then handleConfigureBezel E cmd w
      else if isCommand cmd ''empty'' then handleEmpty E cmd w
      else if isCommand cmd ''smart-empty'' then handleSmartEmpty E cmd w
      else if isCommand cmd ''cashbox-payout-operation-data'' then handleCashboxPayoutOperationData E cmd w
      else if isCommand cmd ''set-cashbox-payout-limit'' then handleSetCashboxPayoutLimit E cmd w
      else if isCommand cmd ''enable'' then handleEnable E cmd w
      else if isCommand cmd ''disable'' then handleDisable E cmd w
      else if isCommand cmd ''enable-channels'' then handleEnableChannels E cmd w
      else if isCommand cmd ''disable-channels'' then handleDisableChannels E cmd w
      else if isCommand cmd ''inhibit-channels'' then handleInhibitChannels E cmd w
      else if isCommand cmd ''test-float'' \<or> isCommand cmd ''do-float'' then handleFloat E cmd w
      else if isCommand cmd ''test-payout'' \<or> isCommand cmd ''do-payout'' then handlePayout E cmd w
      else if isCommand cmd ''get-firmware-version'' then handleGetFirmwareVersion E cmd w
      else if isCommand cmd ''get-dataset-version'' then handleGetDatasetVersion E cmd w
      else if isCommand cmd ''channel-security-data'' then handleChannelSecurityData E cmd w
      else if isCommand cmd ''get-all-levels'' then handleGetAllLevels E cmd w
      else if isCommand cmd ''set-denomination-level'' then handleSetDenominationLevels E cmd w
      else if isCommand cmd ''last-reject-note'' then handleLastRejectNote E cmd w
      else replyWith (responseTopic cmd)
             [(''correlId'', Str (percent_s (correlId cmd))),
              (''error'', Str ''unknown command''),
              (''cmd'', Str (percent_s (command cmd)))] w)"

text \<open>
  The part of \<^verbatim>\<open>cbOnRequestMessage\<close> after the topic has selected the device and the
  response topic. \<open>uuid\<close> is the text of the identifier that libuuid generates for this
  response.
\<close>

definition processRequest :: "environment \<Rightarrow> string \<Rightarrow> device_ref \<Rightarrow> string \<Rightarrow> string \<Rightarrow> world \<Rightarrow> world" where
  "processRequest E uuid dev topic message w =
     (case json_loads E message of
        Inl err \<Rightarrow>
          replyWith topic
            [(''error'', Str ''could not parse json''),
             (''reason'', Str (error_text err)),
             (''line'', Ld (error_line err))] w
      | Inr j \<Rightarrow>
          let cmd = \<lparr>jsonMessage = j, command = None, correlId = None, msgId = Some uuid,
                     responseTopic = topic, device = dev\<rparr>;
              jMsgId = json_object_get j ''msgId''
          in if \<not> json_is_string jMsgId then replyWithPropertyError cmd ''msgId'' w
             else
          let cmd = cmd\<lparr>correlId := Some (json_string_value jMsgId)\<rparr>;
              jCmd = json_object_get j ''cmd''
          in if \<not> json_is_string jCmd then replyWithPropertyError cmd ''cmd'' w
             else
          let cmd = cmd\<lparr>command := Some (json_string_value jCmd)\<rparr>
          in if isCommand cmd ''quit'' then handleQuit cmd w
             else if isCommand cmd ''test'' then handleTest cmd w
             else if \<not> sspAvailable (metacash w)
               then replyWith topic
                      [(''correlId'', Str (percent_s (correlId cmd))),
                       (''error'', Str ''hardware unavailable'')] w
               else dispatchHardwareCommand E cmd w)"

definition cbOnRequestMessage :: "environment \<Rightarrow> string \<Rightarrow> redisReply option \<Rightarrow> world \<Rightarrow> world" where
  "cbOnRequestMessage E uuid r w =
     (case r of
        None \<Rightarrow> w
      | Some (REDIS_REPLY_ARRAY [e0, topic, message]) \<Rightarrow>
          if e0 \<noteq> ''subscribe'' then
            if topic = ''validator-request'' then processRequest E uuid Validator ''validator-response'' message w
            else if topic = ''hopper-request'' then processRequest E uuid Hopper ''hopper-response'' message w
            else w
          else w
      | Some _ \<Rightarrow> w)"

section \<open>Poll events\<close>

text \<open>\<^verbatim>\<open>die\<close> ends the process with the given code.\<close>

definition die :: "string \<Rightarrow> int \<Rightarrow> world \<Rightarrow> world" where
  "die reason rc w = w\<lparr>status := Exited rc\<rparr>"

text \<open>
  One round of the \<^verbatim>\<open>switch\<close> of \<^verbatim>\<open>hopperEventHandler\<close>. \<^verbatim>\<open>%ld\<close> prints the
  \<^verbatim>\<open>unsigned long\<close> fields as signed numbers.
\<close>

definition hopperEvent :: "environment \<Rightarrow> device_ref \<Rightarrow> SSP_POLL_EVENT6 \<Rightarrow> world \<Rightarrow> world" where
  "hopperEvent E d e w =
     (case event e of
        SSP_POLL_RESET \<Rightarrow>
          (let w1 = publishHopperEvent [(''event'', Str ''unit reset'')] w;
               (resp, w2) = ssp6 E d (ssp6_host_protocol 0x06) w1
           in if resp \<noteq> SSP_RESPONSE_OK
              then die ''hopperEventHandler: SSP Host Protocol Failed'' 3 w2
              else w2)
      | SSP_POLL_READ \<Rightarrow>
          (if 0 < data1 e
           then publishHopperEvent [(''event'', Str ''read''), (''channel'', Ld (sint (data1 e)))] w
           else publishHopperEvent [(''event'', Str ''reading'')] w)
      | SSP_POLL_TIMEOUT \<Rightarrow> publishHopperEvent [(''event'', Str ''timeout''), (''amount'', Ld (sint (data1 e))), (''cc'', Str (cc e))] w
      | SSP_POLL_DISPENSING \<Rightarrow> publishHopperEvent [(''event'', Str ''dispensing''), (''amount'', Ld (sint (data1 e)))] w
      | SSP_POLL_DISPENSED \<Rightarrow> publishHopperEvent [(''event'', Str ''dispensed''), (''amount'', Ld (sint (data1 e)))] w
      | SSP_POLL_FLOATING \<Rightarrow> publishHopperEvent [(''event'', Str ''floating''), (''amount'', Ld (sint (data1 e))), (''cc'', Str (cc e))] w
      | SSP_POLL_FLOATED \<Rightarrow> publishHopperEvent [(''event'', Str ''floated''), (''amount'', Ld (sint (data1 e))), (''cc'', Str (cc e))] w
      | SSP_POLL_CASHBOX_PAID \<Rightarrow> publishHopperEvent [(''event'', Str ''cashbox paid''), (''amount'', Ld (sint (data1 e))), (''cc'', Str (cc e))] w
      | SSP_POLL_JAMMED \<Rightarrow> publishHopperEvent [(''event'', Str ''jammed'')] w
      | SSP_POLL_FRAUD_ATTEMPT \<Rightarrow> publishHopperEvent [(''event'', Str ''fraud attempt'')] w
      | SSP_POLL_COIN_CREDIT \<Rightarrow> publishHopperEvent [(''event'', Str ''coin credit''), (''amount'', Ld (sint (data1 e))), (''cc'', Str (cc e))] w
      | SSP_POLL_EMPTY \<Rightarrow> publishHopperEvent [(''event'', Str ''empty'')] w
      | SSP_POLL_EMPTYING \<Rightarrow> publishHopperEvent [(''event'', Str ''emptying'')] w
      | SSP_POLL_SMART_EMPTYING \<Rightarrow> publishHopperEvent [(''event'', Str ''smart emptying''), (''amount'', Ld (sint (data1 e))), (''cc'', Str (cc e))] w
      | SSP_POLL_SMART_EMPTIED \<Rightarrow> publishHopperEvent [(''event'', Str ''smart emptied''), (''amount'', Ld (sint (data1 e))), (''cc'', Str (cc e))] w
      | SSP_POLL_CREDIT \<Rightarrow>
          publishHopperEvent
            [(''event'', Str ''credit''), (''channel'', Ld (sint (data1 e))), (''cc'', Str (cc e))] w
      | SSP_POLL_INCOMPLETE_PAYOUT \<Rightarrow> publishHopperEvent [(''event'', Str ''incomplete payout''), (''dispensed'', Ld (sint (data1 e))), (''requested'', Ld (sint (data2 e))), (''cc'', Str (cc e))] w
      | SSP_POLL_INCOMPLETE_FLOAT \<Rightarrow> publishHopperEvent [(''event'', Str ''incomplete float''), (''dispensed'', Ld (sint (data1 e))), (''requested'', Ld (sint (data2 e))), (''cc'', Str (cc e))] w
      | SSP_POLL_DISABLED \<Rightarrow> publishHopperEvent [(''event'', Str ''disabled'')] w
      | SSP_POLL_CALIBRATION_FAIL \<Rightarrow>
          (case calibration_failure E (data1 e) of
              NO_FAILUE \<Rightarrow> publishHopperEvent [(''event'', Str ''calibration fail''), (''error'', Str ''no error'')] w
           | SENSOR_FLAP \<Rightarrow> publishHopperEvent [(''event'', Str ''calibration fail''), (''error'', Str ''sensor flap'')] w
           | SENSOR_EXIT \<Rightarrow> publishHopperEvent [(''event'', Str ''calibration fail''), (''error'', Str ''sensor exit'')] w
           | SENSOR_COIL1 \<Rightarrow> publishHopperEvent [(''event'', Str ''calibration fail''), (''error'', Str ''sensor coil 1'')] w
           | SENSOR_COIL2 \<Rightarrow> publishHopperEvent [(''event'', Str ''calibration fail''), (''error'', Str ''sensor coil 2'')] w
           | NOT_INITIALISED \<Rightarrow> publishHopperEvent [(''event'', Str ''calibration fail''), (''error'', Str ''not initialized'')] w
           | CHECKSUM_ERROR \<Rightarrow> publishHopperEvent [(''event'', Str ''calibration fail''), (''error'', Str ''checksum error'')] w
           | COMMAND_RECAL \<Rightarrow>
               snd (ssp6 E d ssp6_run_calibration (publishHopperEvent [(''event'', Str ''recalibrating'')] w))
           | CALIBRATION_unlisted \<Rightarrow> w)
      | _ \<Rightarrow> publishHopperEvent [(''event'', Str ''unknown''), (''id'', Hex02X (event e))] w)"

text \<open>The \<^verbatim>\<open>for\<close> loop over the events of one poll; nothing runs after \<^verbatim>\<open>die\<close>.\<close>

fun hopperEventHandler :: "environment \<Rightarrow> device_ref \<Rightarrow> SSP_POLL_EVENT6 list \<Rightarrow> world \<Rightarrow> world" where
  "hopperEventHandler E d [] w = w"
| "hopperEventHandler E d (e # es) w =
     (let w' = hopperEvent E d e w
      in if status w' = Running then hopperEventHandler E d es w' else w')"

text \<open>
  \<^verbatim>\<open>device->sspSetupReq.ChannelData[data1 - 1].value * 100\<close>, an \<^verbatim>\<open>unsigned long\<close>:
  the subtraction and the product wrap, and the read is defined only inside the array.
\<close>

definition channelAmount :: "m_device \<Rightarrow> ulong \<Rightarrow> ulong option" where
  "channelAmount dev ch =
     (let i = unat (ch - 1)
      in if i < length (ChannelData (sspSetupReq dev))
         then Some (value (ChannelData (sspSetupReq dev) ! i) * 100)
         else None)"

definition validatorEvent :: "environment \<Rightarrow> device_ref \<Rightarrow> SSP_POLL_EVENT6 \<Rightarrow> world \<Rightarrow> world" where
  "validatorEvent E d e w =
     (case event e of
        SSP_POLL_RESET \<Rightarrow>
          (let w1 = publishValidatorEvent [(''event'', Str ''unit reset'')] w;
               (resp, w2) = ssp6 E d (ssp6_host_protocol 0x06) w1
           in if resp \<noteq> SSP_RESPONSE_OK
              then die ''validatorEventHandler: SSP Host Protocol Failed'' 3 w2
              else w2)
      | SSP_POLL_READ \<Rightarrow>
          (if 0 < data1 e
           then (case channelAmount (the_device d (metacash w)) (data1 e) of
                   Some amount \<Rightarrow>
                     publishValidatorEvent
                       [(''event'', Str ''read''), (''amount'', Ld (sint amount)),
                        (''channel'', Ld (sint (data1 e)))] w
                 | None \<Rightarrow> w\<lparr>status := Undefined_behaviour\<rparr>)
           else publishValidatorEvent [(''event'', Str ''reading'')] w)
      | SSP_POLL_EMPTY \<Rightarrow> publishValidatorEvent [(''event'', Str ''empty'')] w
      | SSP_POLL_EMPTYING \<Rightarrow> publishValidatorEvent [(''event'', Str ''emptying'')] w
      | SSP_POLL_SMART_EMPTYING \<Rightarrow> publishValidatorEvent [(''event'', Str ''smart emptying'')] w
      | SSP_POLL_TIMEOUT \<Rightarrow> publishValidatorEvent [(''event'', Str ''timeout''), (''amount'', Ld (sint (data1 e))), (''cc'', Str (cc e))] w
      | SSP_POLL_CREDIT \<Rightarrow>
          (case channelAmount (the_device d (metacash w)) (data1 e) of
             Some amount \<Rightarrow>
               publishValidatorEvent
                 [(''event'', Str ''credit''), (''amount'', Ld (sint amount)),
                  (''channel'', Ld (sint (data1 e)))] w
           | None \<Rightarrow> w\<lparr>status := Undefined_behaviour\<rparr>)
      | SSP_POLL_INCOMPLETE_PAYOUT \<Rightarrow> publishValidatorEvent [(''event'', Str ''incomplete payout''), (''dispensed'', Ld (sint (data1 e))), (''requested'', Ld (sint (data2 e))), (''cc'', Str (cc e))] w
      | SSP_POLL_INCOMPLETE_FLOAT \<Rightarrow> publishValidatorEvent [(''event'', Str ''incomplete float''), (''dispensed'', Ld (sint (data1 e))), (''requested'', Ld (sint (data2 e))), (''cc'', Str (cc e))] w
      | SSP_POLL_REJECTING \<Rightarrow> publishValidatorEvent [(''event'', Str ''rejecting'')] w
      | SSP_POLL_REJECTED \<Rightarrow> publishValidatorEvent [(''event'', Str ''rejected'')] w
      | SSP_POLL_STACKING \<Rightarrow> publishValidatorEvent [(''event'', Str ''stacking'')] w
      | SSP_POLL_STORED \<Rightarrow> publishValidatorEvent [(''event'', Str ''stored'')] w
      | SSP_POLL_STACKED \<Rightarrow> publishValidatorEvent [(''event'', Str ''stacked'')] w
      | SSP_POLL_SAFE_JAM \<Rightarrow> publishValidatorEvent [(''event'', Str ''safe jam'')] w
      | SSP_POLL_UNSAFE_JAM \<Rightarrow> publishValidatorEvent [(''event'', Str ''unsafe jam'')] w
      | SSP_POLL_DISABLED \<Rightarrow> publishValidatorEvent [(''event'', Str ''disabled'')] w
      | SSP_POLL_FRAUD_ATTEMPT \<Rightarrow>
          publishValidatorEvent
            [(''event'', Str ''fraud attempt''), (''dispensed'', Ld (sint (data1 e)))] w
      | SSP_POLL_STACKER_FULL \<Rightarrow> publishValidatorEvent [(''event'', Str ''stacker full'')] w
      | SSP_POLL_CASH_BOX_REMOVED \<Rightarrow> publishValidatorEvent [(''event'', Str ''cashbox removed'')] w
      | SSP_POLL_CASH_BOX_REPLACED \<Rightarrow> publishValidatorEvent [(''event'', Str ''cashbox replaced'')] w
      | SSP_POLL_CLEARED_FROM_FRONT \<Rightarrow> publishValidatorEvent [(''event'', Str ''cleared from front'')] w
      | SSP_POLL_CLEARED_INTO_CASHBOX \<Rightarrow> publishValidatorEvent [(''event'', Str ''cleared into cashbox'')] w
      | SSP_POLL_CALIBRATION_FAIL \<Rightarrow>
          (case calibration_failure E (data1 e) of
              NO_FAILUE \<Rightarrow> publishValidatorEvent [(''event'', Str ''calibration fail''), (''error'', Str ''no error'')] w
           | SENSOR_FLAP \<Rightarrow> publishValidatorEvent [(''event'', Str ''calibration fail''), (''error'', Str ''sensor flap'')] w
           | SENSOR_EXIT \<Rightarrow> publishValidatorEvent [(''event'', Str ''calibration fail''), (''error'', Str ''sensor exit'')] w
           | SENSOR_COIL1 \<Rightarrow> publishValidatorEvent [(''event'', Str ''calibration fail''), (''error'', Str ''sensor coil 1'')] w
           | SENSOR_COIL2 \<Rightarrow> publishValidatorEvent [(''event'', Str ''calibration fail''), (''error'', Str ''sensor coil 2'')] w
           | NOT_INITIALISED \<Rightarrow> publishValidatorEvent [(''event'', Str ''calibration fail''), (''error'', Str ''not initialized'')] w
           | CHECKSUM_ERROR \<Rightarrow> publishValidatorEvent [(''event'', Str ''calibration fail''), (''error'', Str ''checksum error'')] w
           | COMMAND_RECAL \<Rightarrow>
               snd (ssp6 E d ssp6_run_calibration (publishValidatorEvent [(''event'', Str ''recalibrating'')] w))
           | CALIBRATION_unlisted \<Rightarrow> w)
      | _ \<Rightarrow> publishValidatorEvent [(''event'', Str ''unknown''), (''id'', Hex02X (event e))] w)"

fun validatorEventHandler :: "environment \<Rightarrow> device_ref \<Rightarrow> SSP_POLL_EVENT6 list \<Rightarrow> world \<Rightarrow> world" where
  "validatorEventHandler E d [] w = w"
| "validatorEventHandler E d (e # es) w =
     (let w' = validatorEvent E d e w
      in if status w' = Running then validatorEventHandler E d es w' else w')"

definition mcSspPollDevice :: "environment \<Rightarrow> device_ref \<Rightarrow> world \<Rightarrow> world" where
  "mcSspPollDevice E d w =
     (let (r, w1) = ssp_exchange E d ssp6_poll w;
          resp = code r
      in if resp \<noteq> SSP_RESPONSE_OK then
           (if resp = SSP_RESPONSE_TIMEOUT then w1
            else if resp = SSP_RESPONSE_KEY_NOT_SET
              then snd (ssp6 E d (ssp6_setup_encryption (key (the_device d (metacash w1)))) w1)
              else w1)
         else if poll_events r \<noteq> [] then
           (case eventHandlerFn (the_device d (metacash w1)) of
              Fn_hopperEventHandler \<Rightarrow> hopperEventHandler E d (poll_events r) w1
            | Fn_validatorEventHandler \<Rightarrow> validatorEventHandler E d (poll_events r) w1)
         else w1)"

definition cbOnPollEvent :: "environment \<Rightarrow> world \<Rightarrow> world" where
  "cbOnPollEvent E w =
     (if \<not> sspAvailable (metacash w) then w
      else
        let w1 = (if sspDeviceAvailable (hopper (metacash w)) then mcSspPollDevice E Hopper w else w)
        in if status w1 \<noteq> Running then w1
           else if sspDeviceAvailable (validator (metacash w1)) then mcSspPollDevice E Validator w1
           else w1)"

section \<open>Start-up, the event loop and termination\<close>

definition signalHandler :: "int \<Rightarrow> world \<Rightarrow> world" where
  "signalHandler signal w = w\<lparr>receivedSignal := signal\<rparr>"

text \<open>
  \<^verbatim>\<open>parseCmdLine\<close> over the values that successive calls of \<^verbatim>\<open>getopt\<close> return, each
  with its \<^verbatim>\<open>optarg\<close>, up to the final -1.
\<close>

fun parseCmdLine :: "environment \<Rightarrow> (char \<times> string) list \<Rightarrow> m_metacash \<Rightarrow> int \<times> m_metacash" where
  "parseCmdLine E [] m = (0, m)"
| "parseCmdLine E ((c, optarg) # rest) m =
     (if c = CHR ''h'' then parseCmdLine E rest (m\<lparr>redisHost := optarg\<rparr>)
      else if c = CHR ''p'' then parseCmdLine E rest (m\<lparr>redisPort := atoi E optarg\<rparr>)
      else if c = CHR ''d'' then parseCmdLine E rest (m\<lparr>serialDevice := optarg\<rparr>)
      else if c = CHR ''c'' then parseCmdLine E rest (m\<lparr>acceptCoins := True\<rparr>)
      else if c = CHR ''e'' then parseCmdLine E rest (m\<lparr>logSyslogStderr := True\<rparr>)
      else if c = CHR ''?'' then (1, m)
      else (1, m))"

text \<open>
  What the operating system answers when the serial device is opened: whether
  \<^verbatim>\<open>open\<close> gave a descriptor above 0, whether the file is a character device, and
  whether \<^verbatim>\<open>open_ssp_port\<close> returned non-zero.
\<close>

record serial_port =
  open_ok :: bool
  is_chr :: bool
  open_ssp_port_ok :: bool

definition mcSspOpenSerialDevice :: "serial_port \<Rightarrow> int" where
  "mcSspOpenSerialDevice port =
     (if \<not> open_ok port then 1
      else if \<not> is_chr port then 1
      else if \<not> open_ssp_port_ok port then 1
      else 0)"

definition mcSspSetupCommand :: "device_ref \<Rightarrow> int \<Rightarrow> world \<Rightarrow> world" where
  "mcSspSetupCommand d deviceId w =
     w\<lparr>metacash := update_device d
         (\<lambda>dev. dev\<lparr>sspC := (sspC dev)\<lparr>SSPAddress := deviceId, Timeout := 1000,
                                        EncryptionStatus := NO_ENCRYPTION, RetryLevel := 3,
                                        BaudRate := 9600\<rparr>\<rparr>) (metacash w)\<rparr>"

definition mcSspInitializeDevice :: "environment \<Rightarrow> device_ref \<Rightarrow> 64 word \<Rightarrow> world \<Rightarrow> world" where
  "mcSspInitializeDevice E d k w =
     (let (r1, w1) = ssp6 E d ssp6_sync w in
      if r1 \<noteq> SSP_RESPONSE_OK then w1 else
      let (r2, w2) = ssp6 E d (ssp6_setup_encryption k) w1 in
      if r2 \<noteq> SSP_RESPONSE_OK then w2 else
      let (r3, w3) = ssp6 E d (ssp6_host_protocol 0x06) w2 in
      if r3 \<noteq> SSP_RESPONSE_OK then w3 else
      let (r4, w4) = ssp_exchange E d ssp6_setup_request w3;
          w4' = w4\<lparr>metacash := update_device d
                   (\<lambda>dev. dev\<lparr>sspSetupReq := setup_data r4\<rparr>) (metacash w4)\<rparr> in
      if code r4 \<noteq> SSP_RESPONSE_OK then w4' else
      let w5 = snd (mc_ssp_get_firmware_version E d w4');
          w6 = snd (mc_ssp_get_dataset_version E d w5);
          (r7, w7) = ssp6 E d ssp6_enable w6 in
      if r7 \<noteq> SSP_RESPONSE_OK then w7 else
      w7\<lparr>metacash := update_device d (\<lambda>dev. dev\<lparr>sspDeviceAvailable := True\<rparr>) (metacash w7)\<rparr>)"

text \<open>
  The loop of \<^verbatim>\<open>setup\<close> over the hopper's channels \<open>i, i + 1, \<dots>\<close> up to
  \<^verbatim>\<open>NumberOfChannels\<close>; reading \<^verbatim>\<open>ChannelData[i]\<close> is defined only inside the array.
\<close>

fun setCoinmechInhibits :: "environment \<Rightarrow> channel_state \<Rightarrow> nat \<Rightarrow> nat \<Rightarrow> world \<Rightarrow> world" where
  "setCoinmechInhibits E st i 0 w = w"
| "setCoinmechInhibits E st i (Suc n) w =
     (let chans = ChannelData (sspSetupReq (hopper (metacash w)))
      in if i < length chans
         then setCoinmechInhibits E st (Suc i) n
                (snd (ssp6 E Hopper
                   (ssp6_set_coinmech_inhibits (value (chans ! i)) (channel_cc (chans ! i)) st) w))
         else w\<lparr>status := Undefined_behaviour\<rparr>)"

definition setupHopper :: "environment \<Rightarrow> world \<Rightarrow> world" where
  "setupHopper E w =
     (if sspDeviceAvailable (hopper (metacash w))
      then
        let desiredChannelState = (if acceptCoins (metacash w) then ENABLED else DISABLED)
        in setCoinmechInhibits E desiredChannelState 0
             (NumberOfChannels (sspSetupReq (hopper (metacash w)))) w
      else w)"

text \<open>
  The validator's part of \<^verbatim>\<open>setup\<close>. The flag says whether \<^verbatim>\<open>setup\<close> goes on after it:
  when setting the inhibits or enabling the payout fails, \<^verbatim>\<open>setup\<close> returns at once.
\<close>

definition setupValidator :: "environment \<Rightarrow> world \<Rightarrow> bool \<times> world" where
  "setupValidator E w =
     (if sspDeviceAvailable (validator (metacash w))
      then
        let w1 = snd (mc_ssp_set_refill_mode E Validator w);
            w2 = snd (ssp6 E Validator (ssp6_set_route 500 CURRENCY SSP_OPTION_ROUTE_CASHBOX) w1);
            w3 = snd (ssp6 E Validator (ssp6_set_route 1000 CURRENCY SSP_OPTION_ROUTE_CASHBOX) w2);
            w4 = snd (ssp6 E Validator (ssp6_set_route 2000 CURRENCY SSP_OPTION_ROUTE_CASHBOX) w3);
            w5 = snd (ssp6 E Validator (ssp6_set_route 5000 CURRENCY SSP_OPTION_ROUTE_STORAGE) w4);
            w6 = snd (ssp6 E Validator (ssp6_set_route 10000 CURRENCY SSP_OPTION_ROUTE_STORAGE) w5);
            w7 = snd (ssp6 E Validator (ssp6_set_route 20000 CURRENCY SSP_OPTION_ROUTE_STORAGE) w6);
            w8 = snd (ssp6 E Validator (ssp6_set_route 50000 CURRENCY SSP_OPTION_ROUTE_STORAGE) w7);
            w9 = w8\<lparr>metacash := update_device Validator
                      (\<lambda>dev. dev\<lparr>channelInhibits := 0x0\<rparr>) (metacash w8)\<rparr>;
            (r10, w10) = ssp6 E Validator
                           (ssp6_set_inhibits (channelInhibits (validator (metacash w9))) 0x0) w9
        in if r10 \<noteq> SSP_RESPONSE_OK then (False, w10)
           else
             let (r11, w11) = ssp6 E Validator
                                (ssp6_enable_payout (UnitType (sspSetupReq (validator (metacash w10))))) w10
             in if r11 \<noteq> SSP_RESPONSE_OK then (False, w11) else (True, w11)
      else (True, w))"

text \<open>
  \<^verbatim>\<open>setup\<close>, given whether each of the two connections to redis could be made.
\<close>

definition setup_fn :: "environment \<Rightarrow> bool \<times> bool \<Rightarrow> world \<Rightarrow> world" where
  "setup_fn E redis w =
     (if \<not> (fst redis \<and> snd redis) then die ''could not establish connection to redis'' 1 w
      else
        let w1 = w\<lparr>evCheckQuit := True\<rparr>
        in if sspAvailable (metacash w1)
           then
             let w2 = mcSspSetupCommand Validator (device_id (validator (metacash w1))) w1;
                 w3 = mcSspSetupCommand Hopper (device_id (hopper (metacash w2))) w2;
                 w4 = mcSspInitializeDevice E Validator (key (validator (metacash w3))) w3;
                 w5 = mcSspInitializeDevice E Hopper (key (hopper (metacash w4))) w4;
                 w6 = setupHopper E w5
             in if status w6 \<noteq> Running then w6
                else
                  let (goes_on, w7) = setupValidator E w6
                  in if goes_on then w7\<lparr>evPoll := True\<rparr> else w7
           else w1\<lparr>evPoll := True\<rparr>)"

definition cbOnCheckQuitEvent :: "world \<Rightarrow> bool \<times> world" where
  "cbOnCheckQuitEvent w =
     (if receivedSignal w \<noteq> 0 then (True, w\<lparr>receivedSignal := 0\<rparr>) else (False, w))"

text \<open>
  What the event base delivers while it dispatches: a signal, an expiry of one of the two
  timers, or a message on a subscribed request topic (with the identifier that libuuid
  generates while it is handled).
\<close>

datatype reactor_event =
    Signal int
  | Timer_poll
  | Timer_check_quit
  | Request string "redisReply option"

text \<open>
  \<^verbatim>\<open>event_base_dispatch\<close> over the events delivered. The flag says whether the loop was
  left through \<^verbatim>\<open>event_base_loopexit\<close>; it is False when the process ended inside a
  callback and when the events given ran out with the loop still waiting. A timer that
  was never added does not expire.
\<close>

fun event_base_dispatch :: "environment \<Rightarrow> reactor_event list \<Rightarrow> world \<Rightarrow> bool \<times> world" where
  "event_base_dispatch E [] w = (False, w)"
| "event_base_dispatch E (Signal n # evs) w = event_base_dispatch E evs (signalHandler n w)"
| "event_base_dispatch E (Timer_poll # evs) w =
     (if \<not> evPoll w then event_base_dispatch E evs w
      else
        let w' = cbOnPollEvent E w
        in if status w' \<noteq> Running then (False, w') else event_base_dispatch E evs w')"
| "event_base_dispatch E (Timer_check_quit # evs) w =
     (if \<not> evCheckQuit w then event_base_dispatch E evs w
      else
        let (leave, w') = cbOnCheckQuitEvent w
        in if leave then (True, w') else event_base_dispatch E evs w')"
| "event_base_dispatch E (Request uuid r # evs) w =
     event_base_dispatch E evs (cbOnRequestMessage E uuid r w)"

text \<open>
  The assignments with which \<^verbatim>\<open>main\<close> fills its automatic variable \<^verbatim>\<open>metacash\<close>.
  \<open>stack\<close> is what the variable holds before: the fields that \<^verbatim>\<open>main\<close> never sets
  (the masks of the inhibits among them) keep it.
\<close>

definition main_defaults :: "m_metacash \<Rightarrow> m_metacash" where
  "main_defaults stack =
     stack\<lparr>sspAvailable := False, quit := 0, logSyslogStderr := False,
           acceptCoins := False, serialDevice := ''/dev/ttyACM0'',
           redisHost := ''127.0.0.1'', redisPort := 6379,
           hopper := (hopper stack)\<lparr>device_id := 0x10, sspDeviceAvailable := False,
             name := ''Mr. Coin'', key := DEFAULT_KEY,
             eventHandlerFn := Fn_hopperEventHandler\<rparr>,
           validator := (validator stack)\<lparr>device_id := 0x00, sspDeviceAvailable := False,
             name := ''Ms. Note'', key := DEFAULT_KEY,
             eventHandlerFn := Fn_validatorEventHandler\<rparr>\<rparr>"

text \<open>
  \<^verbatim>\<open>main\<close>. The result has status \<open>Exited rc\<close> when the process ended with code \<open>rc\<close>,
  and \<open>Running\<close> when the events given ran out inside the event loop.
\<close>

definition main :: "environment \<Rightarrow> m_metacash \<Rightarrow> (char \<times> string) list \<Rightarrow> serial_port \<Rightarrow> bool \<times> bool \<Rightarrow> reactor_event list \<Rightarrow> world" where
  "main E stack opts port redis evs =
     (let m0 = main_defaults stack;
          (rc, m1) = parseCmdLine E opts m0;
          w0 = \<lparr>metacash = m1, receivedSignal = 0, wire = [], published = [],
                evCheckQuit = False, evPoll = False, status = Running\<rparr>
      in if rc \<noteq> 0 then die ''invalid command line'' 1 w0
         else
           let w1 = (if mcSspOpenSerialDevice port = 0
                     then w0\<lparr>metacash := (metacash w0)\<lparr>sspAvailable := True\<rparr>\<rparr>
                     else w0);
               w2 = setup_fn E redis w1
           in if status w2 \<noteq> Running then w2
              else
                let w3 = publishPayoutEvent [(''event'', Str ''started'')] w2;
                    (left, w4) = event_base_dispatch E evs w3
                in if \<not> left then w4
                   else (publishPayoutEvent [(''event'', Str ''exiting'')] w4)\<lparr>status := Exited 0\<rparr>)"

section \<open>Concrete devices, requests and states\<close>

text \<open>
  Inputs at which the theorems below are evaluated: a device that answers every call with
  a given code, an environment around it, and a state as it is before anything happened.
\<close>

definition no_setup_data :: SSP6_SETUP_REQUEST_DATA where
  "no_setup_data = \<lparr>UnitType = 0x06, NumberOfChannels = 0, ChannelData = []\<rparr>"

definition reply_of :: "SSP_RESPONSE_ENUM \<Rightarrow> hw_reply" where
  "reply_of c = \<lparr>answered = True, code = c, reply_data = [], poll_events = [],
                 setup_data = no_setup_data\<rparr>"

definition no_json :: "string \<Rightarrow> json_error_t + json" where
  "no_json s = Inl \<lparr>error_text = ''unexpected token'', error_line = 1\<rparr>"

definition env_of :: "(exchange list \<Rightarrow> device_ref \<Rightarrow> ssp_call \<Rightarrow> hw_reply) \<Rightarrow> (string \<Rightarrow> json_error_t + json) \<Rightarrow> environment" where
  "env_of hw parse = \<lparr>hardware = hw, json_loads = parse, atoi = (\<lambda>s. 0),
                      calibration_failure = (\<lambda>x. CALIBRATION_unlisted)\<rparr>"

definition always :: "SSP_RESPONSE_ENUM \<Rightarrow> exchange list \<Rightarrow> device_ref \<Rightarrow> ssp_call \<Rightarrow> hw_reply" where
  "always c log d call = reply_of c"

definition blank_device :: m_device where
  "blank_device =
     \<lparr>device_id = 0, name = [], sspDeviceAvailable = False, key = 0, channelInhibits = 0x00,
      sspC = \<lparr>SSPAddress = 0, Timeout = 0, EncryptionStatus = NO_ENCRYPTION, RetryLevel = 0,
              BaudRate = 0, ResponseData = []\<rparr>,
      sspSetupReq = no_setup_data, eventHandlerFn = Fn_validatorEventHandler\<rparr>"

definition blank_metacash :: m_metacash where
  "blank_metacash =
     \<lparr>quit = 0, sspAvailable = True, serialDevice = [], acceptCoins = False,
      logSyslogStderr = False, redisPort = 0, redisHost = [],
      hopper = blank_device, validator = blank_device\<rparr>"

definition blank_world :: world where
  "blank_world =
     \<lparr>metacash = blank_metacash, receivedSignal = 0, wire = [], published = [],
      evCheckQuit = True, evPoll = True, status = Running\<rparr>"

text \<open>The command structure of a request \<open>j\<close> with identifier \<open>m\<close> and command \<open>c\<close>.\<close>

definition request :: "device_ref \<Rightarrow> string \<Rightarrow> string \<Rightarrow> string \<Rightarrow> json \<Rightarrow> m_command" where
  "request d topic m c j =
     \<lparr>jsonMessage = j, command = Some c, correlId = Some m, msgId = Some ''uuid-1'',
      responseTopic = topic, device = d\<rparr>"

section \<open>The specification's channel masks\<close>

text \<open>
  The masks in the words of the specification: starting from the stored mask, bit \<open>d - 1\<close>
  is set (enable-channels) or cleared (disable-channels) for each digit \<open>d\<close> from 1 to 8
  that occurs in the string.
\<close>

definition spec_enable_mask :: "u8 \<Rightarrow> string \<Rightarrow> u8" where
  "spec_enable_mask old chs =
     fold (\<lambda>i m. if ''12345678'' ! i \<in> set chs then set_bit i m else m) [0..<8] old"

definition spec_disable_mask :: "u8 \<Rightarrow> string \<Rightarrow> u8" where
  "spec_disable_mask old chs =
     fold (\<lambda>i m. if ''12345678'' ! i \<in> set chs then unset_bit i m else m) [0..<8] old"

section \<open>Notions used to state the properties\<close>



definition call_of :: "exchange \<Rightarrow> ssp_call" where
  "call_of x = fst (snd x)"



text \<open>
  The low byte of a \<^verbatim>\<open>SET_INHIBITS\<close> that device \<open>d\<close> acknowledged with OK, and the
  last such byte in a log of exchanges.
\<close>

fun low_byte_acked :: "device_ref \<Rightarrow> exchange \<Rightarrow> u8 option" where
  "low_byte_acked d (d', ssp6_set_inhibits lo hi, r) =
     (if d' = d \<and> code r = SSP_RESPONSE_OK then Some lo else None)"
| "low_byte_acked d (d', _, r) = None"

definition last_acked_inhibits :: "device_ref \<Rightarrow> exchange list \<Rightarrow> u8 option" where
  "last_acked_inhibits d log =
     fold (\<lambda>x acc. case low_byte_acked d x of Some lo \<Rightarrow> Some lo | None \<Rightarrow> acc) log None"

text \<open>
  The stored mask of device \<open>d\<close> equals the low byte of the last \<^verbatim>\<open>SET_INHIBITS\<close> that
  the device acknowledged, if there was one.
\<close>

definition inhibits_in_sync :: "world \<Rightarrow> device_ref \<Rightarrow> bool" where
  "inhibits_in_sync w d =
     (case last_acked_inhibits d (wire w) of
        None \<Rightarrow> True
      | Some lo \<Rightarrow> channelInhibits (the_device d (metacash w)) = lo)"

fun is_set_inhibits :: "ssp_call \<Rightarrow> bool" where
  "is_set_inhibits (ssp6_set_inhibits lo hi) = True"
| "is_set_inhibits _ = False"


text \<open>The \<open>cmd\<close> property that \<^verbatim>\<open>cbOnRequestMessage\<close> finds in a delivered message.\<close>

definition requested_command :: "environment \<Rightarrow> redisReply option \<Rightarrow> string option" where
  "requested_command E r =
     (case r of
        Some (REDIS_REPLY_ARRAY [e0, topic, message]) \<Rightarrow>
          (case json_loads E message of
             Inr j \<Rightarrow> (case json_object_get j ''cmd'' of Some (JString c) \<Rightarrow> Some c | _ \<Rightarrow> None)
           | Inl err \<Rightarrow> None)
      | _ \<Rightarrow> None)"

text \<open>
  Two more devices: one that answers \<^verbatim>\<open>KEY_NOT_SET\<close> to the first call ever made and OK
  to every later one, and one whose validator reports a reset at every poll and refuses
  the protocol version from the first poll on.
\<close>

definition key_not_set_first :: "exchange list \<Rightarrow> device_ref \<Rightarrow> ssp_call \<Rightarrow> hw_reply" where
  "key_not_set_first log d c =
     (if log = [] then reply_of SSP_RESPONSE_KEY_NOT_SET else reply_of SSP_RESPONSE_OK)"

definition reset_refused :: "exchange list \<Rightarrow> device_ref \<Rightarrow> ssp_call \<Rightarrow> hw_reply" where
  "reset_refused log d c =
     (case c of
        ssp6_poll \<Rightarrow>
          (reply_of SSP_RESPONSE_OK)
            \<lparr>poll_events := (if d = Validator
                             then [\<lparr>event = SSP_POLL_RESET, data1 = 0, data2 = 0, cc = []\<rparr>]
                             else [])\<rparr>
      | ssp6_host_protocol v \<Rightarrow>
          (if list_ex (\<lambda>x. call_of x = ssp6_poll) log then reply_of SSP_RESPONSE_FAILURE
           else reply_of SSP_RESPONSE_OK)
      | _ \<Rightarrow> reply_of SSP_RESPONSE_OK)"

definition parse_as :: "json \<Rightarrow> string \<Rightarrow> json_error_t + json" where
  "parse_as j s = Inr j"

definition serial_ok :: serial_port where
  "serial_ok = \<lparr>open_ok = True, is_chr = True, open_ssp_port_ok = True\<rparr>"

section \<open>More notions used to state the properties\<close>






text \<open>How a poll can leave the process: running, ended with code 3, or undefined.\<close>

definition after_poll :: "run_status \<Rightarrow> bool" where
  "after_poll s \<longleftrightarrow> s = Running \<or> s = Exited 3 \<or> s = Undefined_behaviour"

section \<open>Basic facts\<close>

lemma strstr_char: "strstr h [c] \<longleftrightarrow> c \<in> set h"
  by (induction h) auto

lemma upt8: "[0..<8] = [0, 1, 2, 3, 4, 5, 6, 7]"
  by (simp add: upt_rec)

lemma the_device_update:
  "the_device d' (update_device d f m) = (if d' = d then f (the_device d m) else the_device d' m)"
  by (cases d; cases d') simp_all

lemma ssp_exchange_fst [simp]: "fst (ssp_exchange E d c w) = hardware E (wire w) d c"
  by (simp add: ssp_exchange_def Let_def)

lemma ssp_exchange_snd:
  "snd (ssp_exchange E d c w) =
     w\<lparr>wire := wire w @ [(d, c, hardware E (wire w) d c)],
       metacash := update_device d
         (\<lambda>dev. dev\<lparr>sspC := (sspC dev)\<lparr>ResponseData := reply_data (hardware E (wire w) d c)\<rparr>\<rparr>)
         (metacash w)\<rparr>"
  by (simp add: ssp_exchange_def Let_def)

lemma ssp6_fst [simp]: "fst (ssp6 E d c w) = code (hardware E (wire w) d c)"
  by (simp add: ssp6_def split_beta)

lemma ssp6_snd [simp]: "snd (ssp6 E d c w) = snd (ssp_exchange E d c w)"
  by (simp add: ssp6_def split_beta)

lemma mc_send_fst [simp]:
  "fst (mc_send E d c bs w) =
     (if answered (hardware E (wire w) d (send_ssp_command c bs))
      then code (hardware E (wire w) d (send_ssp_command c bs)) else SSP_RESPONSE_TIMEOUT)"
  by (simp add: mc_send_def split_beta Let_def)

lemma mc_send_snd [simp]:
  "snd (mc_send E d c bs w) = snd (ssp_exchange E d (send_ssp_command c bs) w)"
  by (simp add: mc_send_def split_beta)

lemma exch_wire [simp]:
  "wire (snd (ssp_exchange E d c w)) = wire w @ [(d, c, hardware E (wire w) d c)]"
  by (simp add: ssp_exchange_snd)

lemma exch_published [simp]: "published (snd (ssp_exchange E d c w)) = published w"
  by (simp add: ssp_exchange_snd)

lemma exch_status [simp]: "status (snd (ssp_exchange E d c w)) = status w"
  by (simp add: ssp_exchange_snd)

lemma exch_inhibits [simp]:
  "channelInhibits (the_device d' (metacash (snd (ssp_exchange E d c w))))
     = channelInhibits (the_device d' (metacash w))"
  by (simp add: ssp_exchange_snd the_device_update)

lemma exch_ResponseData [simp]:
  "ResponseData (sspC (the_device d (metacash (snd (ssp_exchange E d c w)))))
     = reply_data (hardware E (wire w) d c)"
  by (simp add: ssp_exchange_snd the_device_update)

lemma replyWith_wire [simp]: "wire (replyWith t m w) = wire w"
  by (simp add: replyWith_def)

lemma replyWith_metacash [simp]: "metacash (replyWith t m w) = metacash w"
  by (simp add: replyWith_def)

lemma replyWith_status [simp]: "status (replyWith t m w) = status w"
  by (simp add: replyWith_def)

lemma replyWith_published [simp]: "published (replyWith t m w) = published w @ [(t, m)]"
  by (simp add: replyWith_def)

lemma replySsp_wire [simp]: "wire (replyWithSspResponse cmd r w) = wire w"
  by (simp add: replyWithSspResponse_def)

lemma replySsp_metacash [simp]: "metacash (replyWithSspResponse cmd r w) = metacash w"
  by (simp add: replyWithSspResponse_def)

lemma replySsp_status [simp]: "status (replyWithSspResponse cmd r w) = status w"
  by (simp add: replyWithSspResponse_def)

lemma replyProp_wire [simp]: "wire (replyWithPropertyError cmd n w) = wire w"
  by (simp add: replyWithPropertyError_def)

lemma replyProp_metacash [simp]: "metacash (replyWithPropertyError cmd n w) = metacash w"
  by (simp add: replyWithPropertyError_def)

lemma replyProp_status [simp]: "status (replyWithPropertyError cmd n w) = status w"
  by (simp add: replyWithPropertyError_def)

lemmas mc_defs = mc_ssp_empty_def mc_ssp_smart_empty_def mc_ssp_configure_bezel_def
  mc_ssp_set_denomination_level_def mc_ssp_set_cashbox_payout_limit_def mc_ssp_float_def
  mc_ssp_channel_security_data_def mc_ssp_last_reject_note_def
  mc_ssp_cashbox_payout_operation_data_def mc_ssp_get_all_levels_def
  mc_ssp_get_firmware_version_def mc_ssp_get_dataset_version_def
  mc_ssp_display_on_def mc_ssp_display_off_def mc_ssp_set_refill_mode_def

section \<open>The channel masks of enable-channels and disable-channels\<close>

lemma setRequestedBits_spec: "setRequestedBits chs c = spec_enable_mask c chs"
  by (simp add: setRequestedBits_def spec_enable_mask_def Let_def upt8 strstr_char set_bit_eq_or
      split del: if_split cong: if_cong)

lemma clearRequestedBits_spec: "clearRequestedBits chs c = spec_disable_mask c chs"
  by (simp add: clearRequestedBits_def spec_disable_mask_def Let_def upt8 strstr_char
      unset_bit_eq_and_not split del: if_split cong: if_cong)

lemma bit_spec_enable_mask:
  "bit (spec_enable_mask old chs) i \<longleftrightarrow> bit old i \<or> (i < 8 \<and> ''12345678'' ! i \<in> set chs)"
proof -
  have step: "bit (fold (\<lambda>i m. if ''12345678'' ! i \<in> set chs then set_bit i m else m) [0..<n] m) i
      \<longleftrightarrow> bit (m::u8) i \<or> (i < n \<and> i < 8 \<and> ''12345678'' ! i \<in> set chs)" for n m
    by (induction n arbitrary: m) (auto simp: bit_set_bit_iff less_Suc_eq dest: bit_imp_le_length)
  show ?thesis unfolding spec_enable_mask_def by (simp add: step)
qed

lemma bit_spec_disable_mask:
  "bit (spec_disable_mask old chs) i \<longleftrightarrow> bit old i \<and> \<not> (i < 8 \<and> ''12345678'' ! i \<in> set chs)"
proof -
  have step: "bit (fold (\<lambda>i m. if ''12345678'' ! i \<in> set chs then unset_bit i m else m) [0..<n] m) i
      \<longleftrightarrow> bit (m::u8) i \<and> \<not> (i < n \<and> i < 8 \<and> ''12345678'' ! i \<in> set chs)" for n m
    by (induction n arbitrary: m) (auto simp: bit_unset_bit_iff less_Suc_eq dest: bit_imp_le_length)
  show ?thesis unfolding spec_disable_mask_def by (simp add: step)
qed

lemma handleEnableChannels_eq:
  assumes "json_object_get (jsonMessage cmd) ''channels'' = Some (JString chs)"
  shows "handleEnableChannels E cmd w =
     (let d = device cmd;
          lo = spec_enable_mask (channelInhibits (the_device d (metacash w))) chs;
          w1 = snd (ssp_exchange E d (ssp6_set_inhibits lo 0xFF) w);
          resp = code (hardware E (wire w) d (ssp6_set_inhibits lo 0xFF))
      in replyWithSspResponse cmd resp
           (if resp = SSP_RESPONSE_OK
            then w1\<lparr>metacash := update_device d (\<lambda>dev. dev\<lparr>channelInhibits := lo\<rparr>) (metacash w1)\<rparr>
            else w1))"
  using assms
  by (simp add: handleEnableChannels_def Let_def split_beta setRequestedBits_spec)

lemma handleDisableChannels_eq:
  assumes "json_object_get (jsonMessage cmd) ''channels'' = Some (JString chs)"
  shows "handleDisableChannels E cmd w =
     (let d = device cmd;
          lo = spec_disable_mask (channelInhibits (the_device d (metacash w))) chs;
          w1 = snd (ssp_exchange E d (ssp6_set_inhibits lo 0xFF) w);
          resp = code (hardware E (wire w) d (ssp6_set_inhibits lo 0xFF))
      in replyWithSspResponse cmd resp
           (if resp = SSP_RESPONSE_OK
            then w1\<lparr>metacash := update_device d (\<lambda>dev. dev\<lparr>channelInhibits := lo\<rparr>) (metacash w1)\<rparr>
            else w1))"
  using assms
  by (simp add: handleDisableChannels_def Let_def split_beta clearRequestedBits_spec)

text \<open>
  C2. For an enable-channels or disable-channels request whose \<open>channels\<close> field is a
  string, the new low mask is the stored mask with bit \<open>d - 1\<close> set (respectively cleared)
  for each digit \<open>d\<close> of 1 to 8 that occurs in the string; exactly one call is made,
  \<^verbatim>\<open>ssp6_set_inhibits\<close> with that low mask and 0xFF; and afterwards the stored mask is the
  new one if the device answered OK and the old one otherwise.
\<close>

theorem enable_disable_channels_mask:
  assumes "json_object_get (jsonMessage cmd) ''channels'' = Some (JString chs)"
  shows "(let old = channelInhibits (the_device (device cmd) (metacash w));
              newLow = spec_enable_mask old chs;
              call = ssp6_set_inhibits newLow 0xFF;
              r = hardware E (wire w) (device cmd) call;
              w' = handleEnableChannels E cmd w
          in (\<forall>i. bit newLow i \<longleftrightarrow> bit old i \<or> (i < 8 \<and> ''12345678'' ! i \<in> set chs)) \<and>
             wire w' = wire w @ [(device cmd, call, r)] \<and>
             channelInhibits (the_device (device cmd) (metacash w'))
               = (if code r = SSP_RESPONSE_OK then newLow else old))
       \<and> (let old = channelInhibits (the_device (device cmd) (metacash w));
              newLow = spec_disable_mask old chs;
              call = ssp6_set_inhibits newLow 0xFF;
              r = hardware E (wire w) (device cmd) call;
              w' = handleDisableChannels E cmd w
          in (\<forall>i. bit newLow i \<longleftrightarrow> bit old i \<and> \<not> (i < 8 \<and> ''12345678'' ! i \<in> set chs)) \<and>
             wire w' = wire w @ [(device cmd, call, r)] \<and>
             channelInhibits (the_device (device cmd) (metacash w'))
               = (if code r = SSP_RESPONSE_OK then newLow else old))"
  by (simp add: handleEnableChannels_eq [OF assms] handleDisableChannels_eq [OF assms] Let_def
        bit_spec_enable_mask bit_spec_disable_mask the_device_update)

theorem enable_disable_channels_mask_witness:
  "json_object_get
      (jsonMessage (request Validator ''validator-response'' ''m1'' ''enable-channels''
         (JObject [(''channels'', JString ''135'')]))) ''channels'' = Some (JString ''135'')
   \<and> wire (handleEnableChannels (env_of (always SSP_RESPONSE_OK) no_json)
        (request Validator ''validator-response'' ''m1'' ''enable-channels''
           (JObject [(''channels'', JString ''135'')])) blank_world)
       = [(Validator, ssp6_set_inhibits 0x15 0xFF, reply_of SSP_RESPONSE_OK)]
   \<and> channelInhibits (validator (metacash
        (handleEnableChannels (env_of (always SSP_RESPONSE_OK) no_json)
           (request Validator ''validator-response'' ''m1'' ''enable-channels''
              (JObject [(''channels'', JString ''135'')])) blank_world))) = 0x15"
proof -
  let ?cmd = "request Validator ''validator-response'' ''m1'' ''enable-channels''
                (JObject [(''channels'', JString ''135'')])"
  have h: "json_object_get (jsonMessage ?cmd) ''channels'' = Some (JString ''135'')"
    by (simp add: request_def)
  have m: "spec_enable_mask 0 ''135'' = 0x15"
    by (simp add: spec_enable_mask_def upt8 set_bit_eq_or)
  show ?thesis
    using enable_disable_channels_mask [OF h, of blank_world "env_of (always SSP_RESPONSE_OK) no_json"]
    by (simp add: Let_def request_def blank_world_def blank_metacash_def blank_device_def
          env_of_def always_def reply_of_def m)
qed

text \<open>
  C8, as stated: from the mask 0x00, a successful enable-channels for \<open>135\<close> followed by a
  successful disable-channels for \<open>3\<close> would leave 0b00010101 (0x15). It leaves something
  else.
\<close>

theorem enable_135_disable_3_counterexample:
  "channelInhibits (validator (metacash
      (handleDisableChannels (env_of (always SSP_RESPONSE_OK) no_json)
         (request Validator ''validator-response'' ''m2'' ''disable-channels''
            (JObject [(''channels'', JString ''3'')]))
         (handleEnableChannels (env_of (always SSP_RESPONSE_OK) no_json)
            (request Validator ''validator-response'' ''m1'' ''enable-channels''
               (JObject [(''channels'', JString ''135'')])) blank_world))))
   \<noteq> 0x15"
proof -
  have h1: "json_object_get (jsonMessage (request Validator ''validator-response'' ''m1''
      ''enable-channels'' (JObject [(''channels'', JString ''135'')]))) ''channels''
      = Some (JString ''135'')"
    by (simp add: request_def)
  have h2: "json_object_get (jsonMessage (request Validator ''validator-response'' ''m2''
      ''disable-channels'' (JObject [(''channels'', JString ''3'')]))) ''channels''
      = Some (JString ''3'')"
    by (simp add: request_def)
  have m1: "spec_enable_mask 0 ''135'' = 0x15"
    by (simp add: spec_enable_mask_def upt8 set_bit_eq_or)
  have m2: "spec_disable_mask 0x15 ''3'' = 0x11"
    by (simp add: spec_disable_mask_def upt8 unset_bit_eq_and_not)
  show ?thesis
    unfolding handleDisableChannels_eq [OF h2] handleEnableChannels_eq [OF h1]
    by (simp add: Let_def request_def blank_world_def blank_metacash_def blank_device_def
          env_of_def always_def reply_of_def m1 m2 the_device_update)
qed

text \<open>
  C8, amended: from the mask 0x00, a successful enable-channels for \<open>135\<close> followed by a
  successful disable-channels for \<open>3\<close> on the same device leaves the stored mask at
  0b00010001 (0x11): bits 0 and 4 set, bit 2 cleared again.
\<close>

theorem enable_135_disable_3:
  assumes "json_object_get (jsonMessage c1) ''channels'' = Some (JString ''135'')"
    and "json_object_get (jsonMessage c2) ''channels'' = Some (JString ''3'')"
    and "device c1 = d" and "device c2 = d"
    and "channelInhibits (the_device d (metacash w)) = 0x00"
    and "code (hardware E (wire w) d (ssp6_set_inhibits 0x15 0xFF)) = SSP_RESPONSE_OK"
    and "code (hardware E (wire (handleEnableChannels E c1 w)) d (ssp6_set_inhibits 0x11 0xFF))
           = SSP_RESPONSE_OK"
  shows "channelInhibits (the_device d (metacash
           (handleDisableChannels E c2 (handleEnableChannels E c1 w)))) = 0x11"
proof -
  have m1: "spec_enable_mask 0 ''135'' = 0x15"
    by (simp add: spec_enable_mask_def upt8 set_bit_eq_or)
  have m2: "spec_disable_mask 0x15 ''3'' = 0x11"
    by (simp add: spec_disable_mask_def upt8 unset_bit_eq_and_not)
  have e: "channelInhibits (the_device d (metacash (handleEnableChannels E c1 w))) = 0x15"
    using assms(3,5,6)
    by (simp add: handleEnableChannels_eq [OF assms(1)] Let_def m1 the_device_update)
  show ?thesis
    using assms(4,7) e
    by (simp add: handleDisableChannels_eq [OF assms(2)] Let_def m2 the_device_update)
qed

theorem enable_135_disable_3_witness:
  "channelInhibits (the_device Validator (metacash
      (handleDisableChannels (env_of (always SSP_RESPONSE_OK) no_json)
         (request Validator ''validator-response'' ''m2'' ''disable-channels''
            (JObject [(''channels'', JString ''3'')]))
         (handleEnableChannels (env_of (always SSP_RESPONSE_OK) no_json)
            (request Validator ''validator-response'' ''m1'' ''enable-channels''
               (JObject [(''channels'', JString ''135'')])) blank_world)))) = 0x11"
  by (rule enable_135_disable_3)
     (simp_all add: request_def blank_world_def blank_metacash_def blank_device_def env_of_def
        always_def reply_of_def)

section \<open>set-denomination-level\<close>





section \<open>Requests without a usable msgId\<close>

text \<open>
  C10. A request on one of the two request topics whose JSON parses and whose \<open>msgId\<close>
  property is missing or no string gets exactly one reply, on the response topic of its
  device: the property error with \<open>correlId\<close> \<open>unknown\<close> and, as \<open>msgId\<close>, the
  identifier generated for this response. Nothing else changes.
\<close>

theorem missing_msgId_property_error:
  assumes "e0 \<noteq> ''subscribe''"
    and "(topic, rtopic) = (''validator-request'', ''validator-response'')
         \<or> (topic, rtopic) = (''hopper-request'', ''hopper-response'')"
    and "json_loads E message = Inr j"
    and "\<not> json_is_string (json_object_get j ''msgId'')"
  shows "cbOnRequestMessage E uuid (Some (REDIS_REPLY_ARRAY [e0, topic, message])) w
     = w\<lparr>published := published w @
          [(rtopic,
            [(''msgId'', Str uuid),
             (''correlId'', Str ''unknown''),
             (''error'', Str (''Property '' @ [CHR 0x27] @ ''msgId'' @ [CHR 0x27]
                              @ '' missing or of wrong type''))])]\<rparr>"
  using assms
  by (auto simp: cbOnRequestMessage_def processRequest_def replyWithPropertyError_def
        replyWith_def Let_def)

theorem missing_msgId_property_error_witness:
  "published (cbOnRequestMessage
      (env_of (always SSP_RESPONSE_OK) (parse_as (JObject [(''cmd'', JString ''test'')])))
      ''uuid-7'' (Some (REDIS_REPLY_ARRAY [''message'', ''hopper-request'', ''text''])) blank_world)
   = [(''hopper-response'',
       [(''msgId'', Str ''uuid-7''),
        (''correlId'', Str ''unknown''),
        (''error'', Str (''Property '' @ [CHR 0x27] @ ''msgId'' @ [CHR 0x27]
                         @ '' missing or of wrong type''))])]"
proof -
  let ?E = "env_of (always SSP_RESPONSE_OK) (parse_as (JObject [(''cmd'', JString ''test'')]))"
  have 1: "''message'' \<noteq> ''subscribe''" by simp
  have 2: "(''hopper-request'', ''hopper-response'') = (''validator-request'', ''validator-response'')
         \<or> (''hopper-request'', ''hopper-response'') = (''hopper-request'', ''hopper-response'')"
    by simp
  have 3: "json_loads ?E ''text'' = Inr (JObject [(''cmd'', JString ''test'')])"
    by (simp add: env_of_def parse_as_def)
  have 4: "\<not> json_is_string (json_object_get (JObject [(''cmd'', JString ''test'')]) ''msgId'')"
    by simp
  show ?thesis
    using missing_msgId_property_error [OF 1 2 3 4, of "''uuid-7''" blank_world]
    by (simp add: blank_world_def)
qed

section \<open>Validator events with a channel\<close>










section \<open>What the handlers leave unchanged\<close>

lemma replySsp_published [simp]:
  "published (replyWithSspResponse cmd r w) = published w @
     [(responseTopic cmd,
       [(''msgId'', Str (percent_s (msgId cmd))),
        (''correlId'', Str (percent_s (correlId cmd))),
        (if r = SSP_RESPONSE_OK then (''result'', Str ''ok'')
         else (''sspError'', Str (sspErrorMsg r)))])]"
  by (simp add: replyWithSspResponse_def)

lemma replyProp_published [simp]:
  "published (replyWithPropertyError cmd n w) = published w @
     [(responseTopic cmd,
       [(''msgId'', Str (case msgId cmd of Some m \<Rightarrow> m | None \<Rightarrow> ''unknown'')),
        (''correlId'', Str (case correlId cmd of Some c \<Rightarrow> c | None \<Rightarrow> ''unknown'')),
        (''error'', Str (''Property '' @ [CHR 0x27] @ n @ [CHR 0x27]
                         @ '' missing or of wrong type''))])]"
  by (simp add: replyWithPropertyError_def Let_def)

lemma low_byte_acked_other: "\<not> is_set_inhibits c \<Longrightarrow> low_byte_acked d (d', c, r) = None"
  by (cases c) simp_all

lemma last_acked_snoc:
  "last_acked_inhibits d (log @ [x]) =
     (case low_byte_acked d x of Some lo \<Rightarrow> Some lo | None \<Rightarrow> last_acked_inhibits d log)"
  by (simp add: last_acked_inhibits_def split: option.split)

lemma last_acked_exchange [simp]:
  "\<not> is_set_inhibits c \<Longrightarrow>
     last_acked_inhibits d (wire w @ [(d', c, r)]) = last_acked_inhibits d (wire w)"
  by (simp add: last_acked_snoc low_byte_acked_other)

lemma in_sync_exchange [simp]:
  "\<not> is_set_inhibits c \<Longrightarrow>
     inhibits_in_sync (snd (ssp_exchange E d c w)) d' = inhibits_in_sync w d'"
  by (simp add: inhibits_in_sync_def split: option.split)

lemma in_sync_cong:
  "wire w' = wire w \<Longrightarrow> metacash w' = metacash w \<Longrightarrow>
     inhibits_in_sync w' d = inhibits_in_sync w d"
  by (simp add: inhibits_in_sync_def split: option.split)

lemma in_sync_replyWith [simp]: "inhibits_in_sync (replyWith t m w) d = inhibits_in_sync w d"
  by (rule in_sync_cong) simp_all

lemma in_sync_replySsp [simp]:
  "inhibits_in_sync (replyWithSspResponse cmd r w) d = inhibits_in_sync w d"
  by (rule in_sync_cong) simp_all

lemma in_sync_replyProp [simp]:
  "inhibits_in_sync (replyWithPropertyError cmd n w) d = inhibits_in_sync w d"
  by (rule in_sync_cong) simp_all

lemma in_sync_set_inhibits_update:
  assumes "inhibits_in_sync w d'"
  shows "inhibits_in_sync
     (if code (hardware E (wire w) d (ssp6_set_inhibits lo hi)) = SSP_RESPONSE_OK
      then (snd (ssp_exchange E d (ssp6_set_inhibits lo hi) w))
             \<lparr>metacash := update_device d (\<lambda>dev. dev\<lparr>channelInhibits := lo\<rparr>)
                (metacash (snd (ssp_exchange E d (ssp6_set_inhibits lo hi) w)))\<rparr>
      else snd (ssp_exchange E d (ssp6_set_inhibits lo hi) w)) d'"
  using assms
  by (cases "d' = d")
     (auto simp: inhibits_in_sync_def last_acked_snoc the_device_update split: option.splits)

lemma payoutError_not_property: "take 10 (payoutError b) \<noteq> ''Property '' @ [CHR 0x27]"
  by (simp add: payoutError_def)

lemmas payoutError_not_property' [simp] = payoutError_not_property [simplified]

lemma handleQuit_status [simp]: "status (handleQuit cmd w) = status w"
  by (simp add: handleQuit_def mc_defs Let_def split_beta)

lemma handleTest_status [simp]: "status (handleTest cmd w) = status w"
  by (simp add: handleTest_def mc_defs Let_def split_beta)

lemma handleEmpty_status [simp]: "status (handleEmpty E cmd w) = status w"
  by (simp add: handleEmpty_def mc_defs Let_def split_beta)

lemma handleSmartEmpty_status [simp]: "status (handleSmartEmpty E cmd w) = status w"
  by (simp add: handleSmartEmpty_def mc_defs Let_def split_beta)

lemma handlePayout_status [simp]: "status (handlePayout E cmd w) = status w"
  by (simp add: handlePayout_def mc_defs Let_def split_beta)

lemma handleFloat_status [simp]: "status (handleFloat E cmd w) = status w"
  by (simp add: handleFloat_def mc_defs Let_def split_beta)

lemma handleEnable_status [simp]: "status (handleEnable E cmd w) = status w"
  by (simp add: handleEnable_def mc_defs Let_def split_beta)

lemma handleDisable_status [simp]: "status (handleDisable E cmd w) = status w"
  by (simp add: handleDisable_def mc_defs Let_def split_beta)

lemma handleSetDenominationLevels_status [simp]: "status (handleSetDenominationLevels E cmd w) = status w"
  by (simp add: handleSetDenominationLevels_def mc_defs Let_def split_beta)

lemma handleSetCashboxPayoutLimit_status [simp]: "status (handleSetCashboxPayoutLimit E cmd w) = status w"
  by (simp add: handleSetCashboxPayoutLimit_def mc_defs Let_def split_beta)

lemma handleGetAllLevels_status [simp]: "status (handleGetAllLevels E cmd w) = status w"
  by (simp add: handleGetAllLevels_def mc_defs Let_def split_beta)

lemma handleCashboxPayoutOperationData_status [simp]: "status (handleCashboxPayoutOperationData E cmd w) = status w"
  by (simp add: handleCashboxPayoutOperationData_def mc_defs Let_def split_beta)

lemma handleGetFirmwareVersion_status [simp]: "status (handleGetFirmwareVersion E cmd w) = status w"
  by (simp add: handleGetFirmwareVersion_def mc_defs Let_def split_beta)

lemma handleGetDatasetVersion_status [simp]: "status (handleGetDatasetVersion E cmd w) = status w"
  by (simp add: handleGetDatasetVersion_def mc_defs Let_def split_beta)

lemma handleLastRejectNote_status [simp]: "status (handleLastRejectNote E cmd w) = status w"
  by (simp add: handleLastRejectNote_def mc_defs Let_def split_beta)

lemma handleChannelSecurityData_status [simp]: "status (handleChannelSecurityData E cmd w) = status w"
  by (simp add: handleChannelSecurityData_def mc_defs Let_def split_beta)

lemma handleConfigureBezel_status [simp]: "status (handleConfigureBezel E cmd w) = status w"
  by (simp add: handleConfigureBezel_def mc_defs Let_def split_beta)

lemma handleEnableChannels_status [simp]: "status (handleEnableChannels E cmd w) = status w"
  by (simp add: handleEnableChannels_def mc_defs Let_def split_beta)

lemma handleDisableChannels_status [simp]: "status (handleDisableChannels E cmd w) = status w"
  by (simp add: handleDisableChannels_def mc_defs Let_def split_beta)

lemma handleInhibitChannels_status [simp]: "status (handleInhibitChannels E cmd w) = status w"
  by (simp add: handleInhibitChannels_def mc_defs Let_def split_beta)

lemma handleQuit_in_sync: "inhibits_in_sync w d' \<Longrightarrow> inhibits_in_sync (handleQuit cmd w) d'"
  by (simp add: handleQuit_def in_sync_cong [of "w\<lparr>receivedSignal := 1\<rparr>" w])

lemma handleTest_in_sync: "inhibits_in_sync w d' \<Longrightarrow> inhibits_in_sync (handleTest cmd w) d'"
  by (simp add: handleTest_def mc_defs Let_def split_beta)

lemma handleEmpty_in_sync: "inhibits_in_sync w d' \<Longrightarrow> inhibits_in_sync (handleEmpty E cmd w) d'"
  by (simp add: handleEmpty_def mc_defs Let_def split_beta)

lemma handleSmartEmpty_in_sync: "inhibits_in_sync w d' \<Longrightarrow> inhibits_in_sync (handleSmartEmpty E cmd w) d'"
  by (simp add: handleSmartEmpty_def mc_defs Let_def split_beta)

lemma handlePayout_in_sync: "inhibits_in_sync w d' \<Longrightarrow> inhibits_in_sync (handlePayout E cmd w) d'"
  by (simp add: handlePayout_def mc_defs Let_def split_beta)

lemma handleFloat_in_sync: "inhibits_in_sync w d' \<Longrightarrow> inhibits_in_sync (handleFloat E cmd w) d'"
  by (simp add: handleFloat_def mc_defs Let_def split_beta)

lemma handleEnable_in_sync: "inhibits_in_sync w d' \<Longrightarrow> inhibits_in_sync (handleEnable E cmd w) d'"
  by (simp add: handleEnable_def mc_defs Let_def split_beta)

lemma handleDisable_in_sync: "inhibits_in_sync w d' \<Longrightarrow> inhibits_in_sync (handleDisable E cmd w) d'"
  by (simp add: handleDisable_def mc_defs Let_def split_beta)

lemma handleSetDenominationLevels_in_sync: "inhibits_in_sync w d' \<Longrightarrow> inhibits_in_sync (handleSetDenominationLevels E cmd w) d'"
  by (simp add: handleSetDenominationLevels_def mc_defs Let_def split_beta)

lemma handleSetCashboxPayoutLimit_in_sync: "inhibits_in_sync w d' \<Longrightarrow> inhibits_in_sync (handleSetCashboxPayoutLimit E cmd w) d'"
  by (simp add: handleSetCashboxPayoutLimit_def mc_defs Let_def split_beta)

lemma handleGetAllLevels_in_sync: "inhibits_in_sync w d' \<Longrightarrow> inhibits_in_sync (handleGetAllLevels E cmd w) d'"
  by (simp add: handleGetAllLevels_def mc_defs Let_def split_beta)

lemma handleCashboxPayoutOperationData_in_sync: "inhibits_in_sync w d' \<Longrightarrow> inhibits_in_sync (handleCashboxPayoutOperationData E cmd w) d'"
  by (simp add: handleCashboxPayoutOperationData_def mc_defs Let_def split_beta)

lemma handleGetFirmwareVersion_in_sync: "inhibits_in_sync w d' \<Longrightarrow> inhibits_in_sync (handleGetFirmwareVersion E cmd w) d'"
  by (simp add: handleGetFirmwareVersion_def mc_defs Let_def split_beta)

lemma handleGetDatasetVersion_in_sync: "inhibits_in_sync w d' \<Longrightarrow> inhibits_in_sync (handleGetDatasetVersion E cmd w) d'"
  by (simp add: handleGetDatasetVersion_def mc_defs Let_def split_beta)

lemma handleLastRejectNote_in_sync: "inhibits_in_sync w d' \<Longrightarrow> inhibits_in_sync (handleLastRejectNote E cmd w) d'"
  by (simp add: handleLastRejectNote_def mc_defs Let_def split_beta)

lemma handleChannelSecurityData_in_sync: "inhibits_in_sync w d' \<Longrightarrow> inhibits_in_sync (handleChannelSecurityData E cmd w) d'"
  by (simp add: handleChannelSecurityData_def mc_defs Let_def split_beta)

lemma handleConfigureBezel_in_sync: "inhibits_in_sync w d' \<Longrightarrow> inhibits_in_sync (handleConfigureBezel E cmd w) d'"
  by (simp add: handleConfigureBezel_def mc_defs Let_def split_beta)

lemma handleEnableChannels_in_sync:
  assumes "inhibits_in_sync w d'"
  shows "inhibits_in_sync (handleEnableChannels E cmd w) d'"
  using assms in_sync_set_inhibits_update [OF assms, of E "device cmd"
    "setRequestedBits (json_string_value (json_object_get (jsonMessage cmd) ''channels''))
       (channelInhibits (the_device (device cmd) (metacash w)))" 255]
  by (simp add: handleEnableChannels_def split_beta Let_def split: if_splits)

lemma handleDisableChannels_in_sync:
  assumes "inhibits_in_sync w d'"
  shows "inhibits_in_sync (handleDisableChannels E cmd w) d'"
  using assms in_sync_set_inhibits_update [OF assms, of E "device cmd"
    "clearRequestedBits (json_string_value (json_object_get (jsonMessage cmd) ''channels''))
       (channelInhibits (the_device (device cmd) (metacash w)))" 255]
  by (simp add: handleDisableChannels_def split_beta Let_def split: if_splits)








































lemmas handler_in_sync =
  handleQuit_in_sync handleTest_in_sync handleEmpty_in_sync handleSmartEmpty_in_sync
  handlePayout_in_sync handleFloat_in_sync handleEnable_in_sync handleDisable_in_sync
  handleSetDenominationLevels_in_sync handleSetCashboxPayoutLimit_in_sync
  handleGetAllLevels_in_sync handleCashboxPayoutOperationData_in_sync
  handleGetFirmwareVersion_in_sync handleGetDatasetVersion_in_sync
  handleLastRejectNote_in_sync handleChannelSecurityData_in_sync
  handleConfigureBezel_in_sync handleEnableChannels_in_sync handleDisableChannels_in_sync



section \<open>The request callback as a whole\<close>

lemma dispatch_status [simp]: "status (dispatchHardwareCommand E cmd w) = status w"
  by (simp add: dispatchHardwareCommand_def)

lemma dispatch_in_sync:
  "\<not> isCommand cmd ''inhibit-channels'' \<Longrightarrow> inhibits_in_sync w d \<Longrightarrow>
     inhibits_in_sync (dispatchHardwareCommand E cmd w) d"
  by (simp add: dispatchHardwareCommand_def handler_in_sync)



lemma processRequest_status [simp]: "status (processRequest E uuid dev topic message w) = status w"
  by (simp add: processRequest_def Let_def split: sum.split)

lemma cbOnRequestMessage_status [simp]: "status (cbOnRequestMessage E uuid r w) = status w"
  by (simp add: cbOnRequestMessage_def split: option.split redisReply.split list.split)

lemma processRequest_in_sync:
  assumes "inhibits_in_sync w d"
    and "\<forall>j. json_loads E message = Inr j \<longrightarrow>
           json_object_get j ''cmd'' \<noteq> Some (JString ''inhibit-channels'')"
  shows "inhibits_in_sync (processRequest E uuid dev topic message w) d"
proof (cases "json_loads E message")
  case (Inl err)
  then show ?thesis using assms(1) by (simp add: processRequest_def)
next
  case (Inr j)
  have c: "json_is_string (json_object_get j ''cmd'') \<Longrightarrow>
      json_string_value (json_object_get j ''cmd'') \<noteq> ''inhibit-channels''"
    using assms(2) Inr
    by (cases "json_object_get j ''cmd''" rule: json_is_string.cases) auto
  show ?thesis
    using assms(1) Inr c
    by (simp add: processRequest_def Let_def handleQuit_in_sync handleTest_in_sync
          dispatch_in_sync isCommand_def)
qed

lemma cbOnRequestMessage_in_sync:
  assumes "inhibits_in_sync w d"
    and "requested_command E r \<noteq> Some ''inhibit-channels''"
  shows "inhibits_in_sync (cbOnRequestMessage E uuid r w) d"
proof -
  have "inhibits_in_sync (processRequest E uuid dev topic message w) d"
    if "r = Some (REDIS_REPLY_ARRAY [e0, tp, message])" for e0 tp message dev topic
  proof (rule processRequest_in_sync [OF assms(1)], intro allI impI)
    fix j assume "json_loads E message = Inr j"
    then show "json_object_get j ''cmd'' \<noteq> Some (JString ''inhibit-channels'')"
      using assms(2) that by (auto simp: requested_command_def)
  qed
  then show ?thesis
    using assms(1)
    by (simp add: cbOnRequestMessage_def split: option.split redisReply.split list.split)
qed


lemmas concrete_defs = env_of_def parse_as_def no_json_def always_def reply_of_def
  no_setup_data_def blank_world_def blank_metacash_def blank_device_def request_def
  key_not_set_first_def serial_ok_def

lemmas request_defs = cbOnRequestMessage_def processRequest_def dispatchHardwareCommand_def
  isCommand_def




text \<open>
  C7 at its failing input: a channel-security-data request with a string \<open>msgId\<close>, the
  hardware being available. The handler sends the command to the device and publishes
  nothing, whatever the device answers.
\<close>

theorem channel_security_data_unanswered:
  "published (cbOnRequestMessage
      (env_of (always SSP_RESPONSE_OK)
         (parse_as (JObject [(''msgId'', JString ''m1''),
                             (''cmd'', JString ''channel-security-data'')])))
      ''uuid-1'' (Some (REDIS_REPLY_ARRAY [''message'', ''validator-request'', ''text''])) blank_world)
     = []
   \<and> map call_of (wire (cbOnRequestMessage
      (env_of (always SSP_RESPONSE_OK)
         (parse_as (JObject [(''msgId'', JString ''m1''),
                             (''cmd'', JString ''channel-security-data'')])))
      ''uuid-1'' (Some (REDIS_REPLY_ARRAY [''message'', ''validator-request'', ''text''])) blank_world))
     = [send_ssp_command SSP_CMD_CHANNEL_SECURITY []]"
  by (simp add: request_defs concrete_defs handleChannelSecurityData_def mc_defs
        mc_send_def ssp_exchange_def Let_def call_of_def)

section \<open>KEY_NOT_SET\<close>





end
